theory Spec2Isabelle
  imports Main "HOL-Library.List_Lexorder" "HOL-Library.Char_ord" "HOL-Library.Multiset"
begin

section \<open>Registry of braille translation tables (brailleTables.py)\<close>

text \<open>
  The module keeps two globals, \<^verbatim>\<open>tablesDirs\<close> and \<^verbatim>\<open>_tables\<close>. They are the two fields
  of the record \<open>state\<close>, which every mutating function takes and returns. A Python string
  is the \<open>string\<close> of its UTF-8 bytes; the order of Python strings (\<^verbatim>\<open><\<close> on \<^verbatim>\<open>str\<close>,
  lexicographic on code points, a proper prefix first) is the lexicographic order on these
  character lists.
  A Python \<^verbatim>\<open>dict\<close> keeps its keys in insertion order, and \<^verbatim>\<open>listTables\<close> depends on
  that order, so \<^verbatim>\<open>_tables\<close> is an association list with the update of a \<^verbatim>\<open>dict\<close>.
\<close>

subsection \<open>Exceptions\<close>

text \<open>
  Every exception below is a subclass of Python's \<^verbatim>\<open>Exception\<close>. \<open>OtherException\<close> stands
  for what the libraries outside the module raise (a parse error of ConfigObj, an
  \<^verbatim>\<open>OSError\<close> of \<^verbatim>\<open>open\<close>, a \<^verbatim>\<open>UnicodeDecodeError\<close>), with its message.
  The messages of \<open>ValueError\<close> and \<open>TypeError\<close> are not modelled.
\<close>

datatype exception = ValueError | KeyError | TypeError | FileNotFoundError | OtherException string

subsection \<open>Values\<close>

text \<open>
  The values that can become the display name of a table. The builtin names and the
  names the module takes from a string are strings. The module never validates a manifest
  against its \<^verbatim>\<open>configspec\<close>, so a name taken from a dictionary of locales is whatever the
  manifest loader put there: a string, a list of strings (an entry written with commas), or
  a value of another type (the dictionary of a nested section), of which the model keeps
  the truth value only.
\<close>

datatype pyValue = PyStr string | PyList "string list" | PyOther bool

fun isStr :: "pyValue \<Rightarrow> bool" where
  "isStr (PyStr s) = True"
| "isStr v = False"

fun isList :: "pyValue \<Rightarrow> bool" where
  "isList (PyList l) = True"
| "isList v = False"

text \<open>The string of a value that is a string, the list of a value that is a list.\<close>

fun strOf :: "pyValue \<Rightarrow> string" where
  "strOf (PyStr s) = s"
| "strOf v = []"

fun listOf :: "pyValue \<Rightarrow> string list" where
  "listOf (PyList l) = l"
| "listOf v = []"

subsection \<open>Data\<close>

definition TABLES_DIR :: string where
  "TABLES_DIR = ''louis'' @ [CHR 0x5C] @ ''tables''"

definition FALLBACK_TABLE_NAME :: string where
  "FALLBACK_TABLE_NAME = ''en-ueb-g1.ctb''"

record BrailleTable =
  fileName :: string
  displayName :: pyValue
  contracted :: bool
  "output" :: bool
  input :: bool

record state =
  tablesDirs :: "string list"
  tables :: "(string \<times> BrailleTable) list"

text \<open>The state of the module right after import.\<close>

definition initialState :: state where
  "initialState = \<lparr>tablesDirs = [TABLES_DIR], tables = []\<rparr>"

subsection \<open>The dict operations used on \<^verbatim>\<open>_tables\<close>\<close>

text \<open>\<^verbatim>\<open>d[k] = v\<close>: an existing key keeps its position and gets the new value, a new key
  goes to the end.\<close>

fun dict_setitem :: "'k \<Rightarrow> 'v \<Rightarrow> ('k \<times> 'v) list \<Rightarrow> ('k \<times> 'v) list" where
  "dict_setitem k v [] = [(k, v)]"
| "dict_setitem k v ((k', v') # kvs) =
     (if k' = k then (k, v) # kvs else (k', v') # dict_setitem k v kvs)"

text \<open>\<^verbatim>\<open>d[k]\<close>: raises \<^verbatim>\<open>KeyError\<close> (a \<^verbatim>\<open>LookupError\<close>) on a missing key.\<close>

fun dict_getitem :: "('k \<times> 'v) list \<Rightarrow> 'k \<Rightarrow> exception + 'v" where
  "dict_getitem [] k = Inl KeyError"
| "dict_getitem ((k', v') # kvs) k = (if k' = k then Inr v' else dict_getitem kvs k)"

subsection \<open>addTable, getTable, getFallbackTable, listTables, terminate\<close>

text \<open>
  A function that mutates the globals and may raise returns the exception raised, if any,
  together with the state at that moment: what was mutated before a raise stays mutated.
  The defaults \<^verbatim>\<open>contracted=False, output=True, input=True\<close> are written out by the
  callers.
\<close>

definition addTable ::
  "state \<Rightarrow> string \<Rightarrow> pyValue \<Rightarrow> bool \<Rightarrow> bool \<Rightarrow> bool \<Rightarrow> exception option \<times> state" where
  "addTable st fileName' displayName' contracted' output' input' =
     (if \<not> output' \<and> \<not> input' then (Some ValueError, st)
      else
        let table = \<lparr>fileName = fileName', displayName = displayName',
                      contracted = contracted', output = output', input = input'\<rparr>
        in (None, st\<lparr>tables := dict_setitem fileName' table (tables st)\<rparr>))"

definition getTable :: "state \<Rightarrow> string \<Rightarrow> exception + BrailleTable" where
  "getTable st fileName' = dict_getitem (tables st) fileName'"

definition getFallbackTable :: "state \<Rightarrow> exception + BrailleTable" where
  "getFallbackTable st = getTable st FALLBACK_TABLE_NAME"

text \<open>
  \<^verbatim>\<open>sorted(_tables.values(), key=lambda table: table.displayName)\<close>. Python's \<^verbatim>\<open>sorted\<close>
  is a stable sort that compares the keys with \<^verbatim>\<open><\<close>, as \<open>sort_key\<close> is. Two strings are
  compared lexicographically on their code points and two lists of strings
  lexicographically on their elements; \<^verbatim>\<open><\<close> on any other two of the values above raises
  \<^verbatim>\<open>TypeError\<close>. Fewer than two values are returned without a comparison. Of two or more
  values each is compared at least once, and when both strings and lists occur the order
  cannot be found without comparing a string with a list: so \<^verbatim>\<open>sorted\<close> raises unless the
  keys are all strings or all lists.
\<close>

definition listTables :: "state \<Rightarrow> exception + BrailleTable list" where
  "listTables st =
     (let values = map snd (tables st) in
      if length values \<le> 1 then Inr values
      else if list_all (\<lambda>table. isStr (displayName table)) values
        then Inr (sort_key (\<lambda>table. strOf (displayName table)) values)
      else if list_all (\<lambda>table. isList (displayName table)) values
        then Inr (sort_key (\<lambda>table. listOf (displayName table)) values)
      else Inl TypeError)"

definition "terminate" :: "state \<Rightarrow> state" where
  "terminate st = \<lparr>tablesDirs = [TABLES_DIR], tables = []\<rparr>"

subsection \<open>RENAMED\_TABLES and the builtin tables\<close>

definition RENAMED_TABLES :: "(string \<times> string) list" where
  "RENAMED_TABLES = [
    (''ar-fa.utb'', ''fa-ir-g1.utb''),
    (''da-dk-g16.utb'', ''da-dk-g16.ctb''),
    (''da-dk-g18.utb'', ''da-dk-g18.ctb''),
    (''de-de-g0.utb'', ''de-g0.utb''),
    (''de-de-g1.ctb'', ''de-g1.ctb''),
    (''de-de-g2.ctb'', ''de-g2.ctb''),
    (''en-us-comp8.ctb'', ''en-us-comp8-ext.utb''),
    (''fr-ca-g1.utb'', ''fr-bfu-comp6.utb''),
    (''Fr-Ca-g2.ctb'', ''fr-bfu-g2.ctb''),
    (''gr-bb.ctb'', ''grc-international-en.utb''),
    (''gr-gr-g1.utb'', ''el.ctb''),
    (''hr.ctb'', ''hr-comp8.utb''),
    (''mn-MN.utb'', ''mn-MN-g1.utb''),
    (''nl-BE-g1.ctb'', ''nl-BE-g0.utb''),
    (''nl-NL-g1.ctb'', ''nl-NL-g0.utb''),
    (''no-no.ctb'', ''no-no-8dot.utb''),
    (''no-no-comp8.ctb'', ''no-no-8dot.utb''),
    (''ru-compbrl.ctb'', ''ru.ctb''),
    (''sk-sk-g1.utb'', ''sk-g1.ctb''),
    (''UEBC-g1.ctb'', ''en-ueb-g1.ctb''),
    (''UEBC-g2.ctb'', ''en-ueb-g2.ctb'')]"

text \<open>
  The first part of \<^verbatim>\<open>initialize\<close> is 109 calls of \<^verbatim>\<open>addTable\<close>, one after the other.
  \<open>builtinTables\<close> lists their arguments in the order of the calls (file name, display
  name, contracted, output, input), with \<^verbatim>\<open>_\<close>, the translation function of gettext,
  as a parameter. \<open>addTables\<close> runs the calls and stops at the first that raises.
\<close>

definition builtinTables :: "(string \<Rightarrow> string) \<Rightarrow> (string \<times> pyValue \<times> bool \<times> bool \<times> bool) list" where
  "builtinTables gettext' = [
    (''afr-za-g1.ctb'', PyStr (gettext' ''Afrikaans grade 1''), False, True, True),
    (''ar-ar-comp8.utb'', PyStr (gettext' ''Arabic 8 dot computer braille''), False, True, True),
    (''ar-ar-g1.utb'', PyStr (gettext' ''Arabic grade 1''), False, True, True),
    (''ar-ar-g2.ctb'', PyStr (gettext' ''Arabic grade 2''), False, True, True),
    (''as-in-g1.utb'', PyStr (gettext' ''Assamese grade 1''), False, True, True),
    (''be-in-g1.utb'', PyStr (gettext' ''Bengali grade 1''), False, True, True),
    (''bg.ctb'', PyStr (gettext' ''Bulgarian 8 dot computer braille''), False, True, True),
    (''ckb-g1.ctb'', PyStr (gettext' ''Central Kurdish grade 1''), False, True, True),
    (''cy-cy-g1.utb'', PyStr (gettext' ''Welsh grade 1''), False, True, True),
    (''cy-cy-g2.ctb'', PyStr (gettext' ''Welsh grade 2''), True, True, True),
    (''cs-comp8.utb'', PyStr (gettext' ''Czech 8 dot computer braille''), False, True, True),
    (''cs-g1.ctb'', PyStr (gettext' ''Czech grade 1''), False, True, True),
    (''da-dk-g08.ctb'', PyStr (gettext' ''Danish 8 dot computer braille''), False, True, True),
    (''da-dk-g16.ctb'', PyStr (gettext' ''Danish 6 dot grade 1''), False, True, True),
    (''da-dk-g18.ctb'', PyStr (gettext' ''Danish 8 dot grade 1''), False, True, True),
    (''da-dk-g26.ctb'', PyStr (gettext' ''Danish 6 dot grade 2''), True, True, True),
    (''da-dk-g28.ctb'', PyStr (gettext' ''Danish 8 dot grade 2''), True, True, True),
    (''de-de-comp8.ctb'', PyStr (gettext' ''German 8 dot computer braille''), False, True, True),
    (''de-g0.utb'', PyStr (gettext' ''German grade 0''), False, True, True),
    (''de-g1.ctb'', PyStr (gettext' ''German grade 1''), False, True, True),
    (''de-g2.ctb'', PyStr (gettext' ''German grade 2''), True, True, True),
    (''el.ctb'', PyStr (gettext' ''Greek (Greece)''), False, True, True),
    (''en-gb-comp8.ctb'', PyStr (gettext' ''English (U.K.) 8 dot computer braille''), False, True, True),
    (''en-gb-g1.utb'', PyStr (gettext' ''English (U.K.) grade 1''), False, True, True),
    (''en-GB-g2.ctb'', PyStr (gettext' ''English (U.K.) grade 2''), True, True, True),
    (''en-nabcc.utb'', PyStr (gettext' ''English North American Braille Computer Code''), False, True, True),
    (''en-ueb-g1.ctb'', PyStr (gettext' ''Unified English Braille Code grade 1''), False, True, True),
    (''en-ueb-g2.ctb'', PyStr (gettext' ''Unified English Braille Code grade 2''), True, True, True),
    (''en-us-comp6.ctb'', PyStr (gettext' ''English (U.S.) 6 dot computer braille''), False, True, True),
    (''en-us-comp8-ext.utb'', PyStr (gettext' ''English (U.S.) 8 dot computer braille''), False, True, True),
    (''en-us-g1.ctb'', PyStr (gettext' ''English (U.S.) grade 1''), False, True, True),
    (''en-us-g2.ctb'', PyStr (gettext' ''English (U.S.) grade 2''), True, True, True),
    (''eo-g1.ctb'', PyStr (gettext' ''Esperanto grade 1''), False, True, True),
    (''Es-Es-G0.utb'', PyStr (gettext' ''Spanish 8 dot computer braille''), False, True, True),
    (''es-g1.ctb'', PyStr (gettext' ''Spanish grade 1''), False, True, True),
    (''es-g2.ctb'', PyStr (gettext' ''Spanish grade 2''), False, True, True),
    (''et-g0.utb'', PyStr (gettext' ''Estonian grade 0''), False, True, True),
    (''ethio-g1.ctb'', PyStr (gettext' ''Ethiopic grade 1''), False, True, True),
    (''fa-ir-comp8.ctb'', PyStr (gettext' ''Persian 8 dot computer braille''), False, True, True),
    (''fa-ir-g1.utb'', PyStr (gettext' ''Persian grade 1''), False, True, True),
    (''fi.utb'', PyStr (gettext' ''Finnish 6 dot''), False, True, True),
    (''fi-fi-8dot.ctb'', PyStr (gettext' ''Finnish 8 dot computer braille''), False, True, True),
    (''fr-bfu-comp6.utb'', PyStr (gettext' ''French (unified) 6 dot computer braille''), False, True, True),
    (''fr-bfu-comp8.utb'', PyStr (gettext' ''French (unified) 8 dot computer braille''), False, True, True),
    (''fr-bfu-g2.ctb'', PyStr (gettext' ''French (unified) grade 2''), True, True, True),
    (''ga-g1.utb'', PyStr (gettext' ''Irish grade 1''), False, True, True),
    (''ga-g2.ctb'', PyStr (gettext' ''Irish grade 2''), True, True, True),
    (''gu-in-g1.utb'', PyStr (gettext' ''Gujarati grade 1''), False, True, True),
    (''grc-international-en.utb'', PyStr (gettext' ''Greek international braille''), False, True, True),
    (''he.ctb'', PyStr (gettext' ''Hebrew 8 dot computer braille''), False, True, True),
    (''hi-in-g1.utb'', PyStr (gettext' ''Hindi grade 1''), False, True, True),
    (''hr-comp8.utb'', PyStr (gettext' ''Croatian 8 dot computer braille''), False, True, True),
    (''hr-g1.ctb'', PyStr (gettext' ''Croatian grade 1''), False, True, True),
    (''hu-hu-comp8.ctb'', PyStr (gettext' ''Hungarian 8 dot computer braille''), False, True, True),
    (''hu-hu-g1.ctb'', PyStr (gettext' ''Hungarian grade 1''), False, True, True),
    (''hu-hu-g2.ctb'', PyStr (gettext' ''Hungarian grade 2''), True, True, True),
    (''is.ctb'', PyStr (gettext' ''Icelandic 8 dot computer braille''), False, True, True),
    (''it-it-comp6.utb'', PyStr (gettext' ''Italian 6 dot computer braille''), False, True, True),
    (''it-it-comp8.utb'', PyStr (gettext' ''Italian 8 dot computer braille''), False, True, True),
    (''ka-in-g1.utb'', PyStr (gettext' ''Kannada grade 1''), False, True, True),
    (''ko-2006-g1.ctb'', PyStr (gettext' ''Korean grade 1 (2006)''), False, True, True),
    (''ko-2006-g2.ctb'', PyStr (gettext' ''Korean grade 2 (2006)''), True, True, True),
    (''ko-g1.ctb'', PyStr (gettext' ''Korean grade 1''), False, True, True),
    (''ko-g2.ctb'', PyStr (gettext' ''Korean grade 2''), True, True, True),
    (''ks-in-g1.utb'', PyStr (gettext' ''Kashmiri grade 1''), False, True, True),
    (''lt.ctb'', PyStr (gettext' ''Lithuanian 8 dot''), False, True, True),
    (''lt-6dot.utb'', PyStr (gettext' ''Lithuanian 6 dot''), False, True, True),
    (''Lv-Lv-g1.utb'', PyStr (gettext' ''Latvian grade 1''), False, True, True),
    (''ml-in-g1.utb'', PyStr (gettext' ''Malayalam grade 1''), False, True, True),
    (''mn-in-g1.utb'', PyStr (gettext' ''Manipuri grade 1''), False, True, True),
    (''mn-MN-g1.utb'', PyStr (gettext' ''Mongolian grade 1''), False, True, True),
    (''mn-MN-g2.ctb'', PyStr (gettext' ''Mongolian grade 2''), True, True, True),
    (''mr-in-g1.utb'', PyStr (gettext' ''Marathi grade 1''), False, True, True),
    (''nl-BE-g0.utb'', PyStr (gettext' ''Dutch (Belgium) 6 dot''), False, True, True),
    (''nl-NL-g0.utb'', PyStr (gettext' ''Dutch (Netherlands) 6 dot''), False, True, True),
    (''nl-comp8.utb'', PyStr (gettext' ''Dutch 8 dot''), False, True, True),
    (''no-no-8dot.utb'', PyStr (gettext' ''Norwegian 8 dot computer braille''), False, True, True),
    (''No-No-g0.utb'', PyStr (gettext' ''Norwegian grade 0''), False, True, True),
    (''No-No-g1.ctb'', PyStr (gettext' ''Norwegian grade 1''), False, True, True),
    (''No-No-g2.ctb'', PyStr (gettext' ''Norwegian grade 2''), True, True, True),
    (''No-No-g3.ctb'', PyStr (gettext' ''Norwegian grade 3''), True, True, True),
    (''np-in-g1.utb'', PyStr (gettext' ''Nepali grade 1''), False, True, True),
    (''or-in-g1.utb'', PyStr (gettext' ''Oriya grade 1''), False, True, True),
    (''pl-pl-comp8.ctb'', PyStr (gettext' ''Polish 8 dot computer braille''), False, True, True),
    (''Pl-Pl-g1.utb'', PyStr (gettext' ''Polish grade 1''), False, True, True),
    (''pt-pt-comp8.ctb'', PyStr (gettext' ''Portuguese 8 dot computer braille''), False, True, True),
    (''Pt-Pt-g1.utb'', PyStr (gettext' ''Portuguese grade 1''), False, True, True),
    (''Pt-Pt-g2.ctb'', PyStr (gettext' ''Portuguese grade 2''), True, True, True),
    (''pu-in-g1.utb'', PyStr (gettext' ''Punjabi grade 1''), False, True, True),
    (''ro.ctb'', PyStr (gettext' ''Romanian''), False, True, True),
    (''ru.ctb'', PyStr (gettext' ''Russian computer braille''), False, True, True),
    (''ru-ru-g1.utb'', PyStr (gettext' ''Russian grade 1''), False, True, True),
    (''sa-in-g1.utb'', PyStr (gettext' ''Sanskrit grade 1''), False, True, True),
    (''Se-Se.ctb'', PyStr (gettext' ''Swedish 8 dot computer braille''), False, True, True),
    (''Se-Se-g1.utb'', PyStr (gettext' ''Swedish grade 1''), False, True, True),
    (''sk-g1.ctb'', PyStr (gettext' ''Slovak grade 1''), False, True, True),
    (''sl-si-comp8.ctb'', PyStr (gettext' ''Slovenian 8 dot computer braille''), False, True, True),
    (''sl-si-g1.utb'', PyStr (gettext' ''Slovenian grade 1''), False, True, True),
    (''sr-g1.ctb'', PyStr (gettext' ''Serbian grade 1''), False, True, True),
    (''ta-ta-g1.ctb'', PyStr (gettext' ''Tamil grade 1''), False, True, True),
    (''te-in-g1.utb'', PyStr (gettext' ''Telugu grade 1''), False, True, True),
    (''tr.ctb'', PyStr (gettext' ''Turkish grade 1''), False, True, True),
    (''uk.utb'', PyStr (gettext' ''Ukrainian''), False, True, True),
    (''unicode-braille.utb'', PyStr (gettext' ''Unicode braille''), False, False, True),
    (''vi-g1.ctb'', PyStr (gettext' ''Vietnamese grade 1''), False, True, True),
    (''zhcn-g1.ctb'', PyStr (gettext' ''Chinese (China, Mandarin) grade 1''), False, True, True),
    (''zhcn-g2.ctb'', PyStr (gettext' ''Chinese (China, Mandarin) grade 2''), False, True, True),
    (''zh-hk.ctb'', PyStr (gettext' ''Chinese (Hong Kong, Cantonese)''), False, True, True),
    (''zh-tw.ctb'', PyStr (gettext' ''Chinese (Taiwan, Mandarin)''), False, True, True)]"

fun addTables ::
  "state \<Rightarrow> (string \<times> pyValue \<times> bool \<times> bool \<times> bool) list \<Rightarrow> exception option \<times> state" where
  "addTables st [] = (None, st)"
| "addTables st ((f, d, c, out, inp) # calls) =
     (case addTable st f d c out inp of
        (Some e, st') \<Rightarrow> (Some e, st')
      | (None, st') \<Rightarrow> addTables st' calls)"

subsection \<open>Custom tables: the configuration data\<close>

text \<open>
  The value stored under \<^verbatim>\<open>"displayName"\<close> in a table configuration: a string, a
  dictionary from locale codes to values (strings, when the manifest is as its
  \<^verbatim>\<open>configspec\<close> wants it), or a value of any other type.
\<close>

datatype displayNameValue =
  DNStr string
| DNDict "string \<rightharpoonup> pyValue"
| DNOther

text \<open>
  A table configuration is a dictionary with the optional keys \<^verbatim>\<open>"contracted"\<close>,
  \<^verbatim>\<open>"output"\<close>, \<^verbatim>\<open>"input"\<close> (booleans, as the docstring of
  \<^verbatim>\<open>loadCustomTablesConfig\<close> types them; the module only tests them with \<^verbatim>\<open>not\<close>, so for a
  value of another type the field is its truth value) and \<^verbatim>\<open>"displayName"\<close>. A field is
  \<open>None\<close> when the key is missing.
\<close>

record tableCfg =
  cfg_displayName :: "displayNameValue option"
  cfg_contracted :: "bool option"
  cfg_output :: "bool option"
  cfg_input :: "bool option"

text \<open>\<^verbatim>\<open>tableCfg.get(key, default)\<close> on one of the boolean keys.\<close>

definition dict_get_default :: "'a option \<Rightarrow> 'a \<Rightarrow> 'a" where
  "dict_get_default field default' = (case field of None \<Rightarrow> default' | Some v \<Rightarrow> v)"

subsection \<open>The environment\<close>

text \<open>
  What the module calls outside itself, one field for each call: \<^verbatim>\<open>_\<close> (gettext),
  \<^verbatim>\<open>languageHandler.getLanguage()\<close>, \<^verbatim>\<open>globalVars.appArgs.secure\<close>,
  \<^verbatim>\<open>config.conf['development']['enableScratchpadDir']\<close>, \<^verbatim>\<open>config.getScratchpadDir()\<close>,
  the paths of \<^verbatim>\<open>addonHandler.getRunningAddons()\<close>, \<^verbatim>\<open>os.path.join\<close>,
  \<^verbatim>\<open>os.path.isdir\<close>, \<^verbatim>\<open>os.path.isfile\<close>, \<^verbatim>\<open>os.listdir\<close> (the names, or the exception
  it raises), and \<open>loadManifest\<close>, which is \<^verbatim>\<open>open(path, "rb")\<close>, the constructor of
  \<^verbatim>\<open>CustomTablesManifest\<close> (ConfigObj's parser) and \<^verbatim>\<open>manifest.dict()\<close> together: the
  dictionary of the file, its items in order, or the exception raised on the way.
  The file system does not change during one call of \<^verbatim>\<open>initialize\<close>.
\<close>

record env =
  gettext :: "string \<Rightarrow> string"
  getLanguage :: string
  secure :: bool
  enableScratchpadDir :: bool
  getScratchpadDir :: string
  getRunningAddons :: "string list"
  pathJoin :: "string \<Rightarrow> string \<Rightarrow> string"
  isdir :: "string \<Rightarrow> bool"
  isfile :: "string \<Rightarrow> bool"
  listdir :: "string \<Rightarrow> exception + string list"
  loadManifest :: "string \<Rightarrow> exception + (string \<times> tableCfg) list"

subsection \<open>\_getCustomTableDisplayName\<close>

text \<open>Truth value of what \<^verbatim>\<open>value.get(key)\<close> returns: \<^verbatim>\<open>None\<close>, the empty string and the
  empty list are false.\<close>

fun truthy :: "pyValue option \<Rightarrow> bool" where
  "truthy None = False"
| "truthy (Some (PyStr s)) = (s \<noteq> [])"
| "truthy (Some (PyList l)) = (l \<noteq> [])"
| "truthy (Some (PyOther b)) = b"

text \<open>\<^verbatim>\<open>lang.split("_")[0]\<close>: the part of the string before its first underscore, the
  whole string when it has none.\<close>

definition split_first :: "string \<Rightarrow> string" where
  "split_first lang = takeWhile (\<lambda>c. c \<noteq> CHR ''_'') lang"

text \<open>\<^verbatim>\<open>tableCfg.get("displayName")\<close>: the value under the key, \<^verbatim>\<open>None\<close> for a missing key.
  \<^verbatim>\<open>dict.get\<close> raises for no key.\<close>

definition dict_get :: "'a option \<Rightarrow> exception + 'a option" where
  "dict_get field = Inr field"

text \<open>
  The \<^verbatim>\<open>try\<close> around \<^verbatim>\<open>tableCfg.get("displayName")\<close> returns the file name on
  \<^verbatim>\<open>KeyError\<close>. A value that is \<^verbatim>\<open>None\<close> fails both \<^verbatim>\<open>isinstance\<close> tests, as a value of
  any type other than \<^verbatim>\<open>str\<close> and \<^verbatim>\<open>dict\<close> does, and \<^verbatim>\<open>ValueError\<close> is raised.
  The four \<^verbatim>\<open>if not displayName:\<close> steps of the dictionary case are \<open>d1\<close> to \<open>d4\<close>.
\<close>

definition getCustomTableDisplayName :: "env \<Rightarrow> string \<Rightarrow> tableCfg \<Rightarrow> exception + pyValue" where
  "getCustomTableDisplayName e fileName' tableCfg' =
     (case dict_get (cfg_displayName tableCfg') of
        Inl exc \<Rightarrow> (if exc = KeyError then Inr (PyStr fileName') else Inl exc)
      | Inr None \<Rightarrow> Inl ValueError
      | Inr (Some (DNStr s)) \<Rightarrow> Inr (PyStr (gettext e s))
      | Inr (Some DNOther) \<Rightarrow> Inl ValueError
      | Inr (Some (DNDict value)) \<Rightarrow>
          (let lang = getLanguage e;
               d0 = value lang;
               d1 = (if \<not> truthy d0 then value (split_first lang) else d0);
               d2 = (if \<not> truthy d1 then value ''en_US'' else d1);
               d3 = (if \<not> truthy d2 then value ''en'' else d2);
               d4 = (if \<not> truthy d3 then PyStr fileName'
                     else (case d3 of Some v \<Rightarrow> v | None \<Rightarrow> PyStr fileName'))
           in Inr d4))"

subsection \<open>loadCustomTablesConfig\<close>

text \<open>
  The loop over \<^verbatim>\<open>data.items()\<close>. The argument \<^verbatim>\<open>displayName\<close> of \<^verbatim>\<open>addTable\<close> is
  evaluated first; when it raises, \<^verbatim>\<open>addTable\<close> is not called and the loop ends with
  the tables registered so far.
\<close>

fun loadCustomTablesConfig ::
  "env \<Rightarrow> state \<Rightarrow> (string \<times> tableCfg) list \<Rightarrow> exception option \<times> state" where
  "loadCustomTablesConfig e st [] = (None, st)"
| "loadCustomTablesConfig e st ((fileName', tableCfg') # items) =
     (case getCustomTableDisplayName e fileName' tableCfg' of
        Inl exc \<Rightarrow> (Some exc, st)
      | Inr displayName' \<Rightarrow>
          (case addTable st fileName' displayName'
                  (dict_get_default (cfg_contracted tableCfg') False)
                  (dict_get_default (cfg_output tableCfg') True)
                  (dict_get_default (cfg_input tableCfg') True) of
             (Some exc, st') \<Rightarrow> (Some exc, st')
           | (None, st') \<Rightarrow> loadCustomTablesConfig e st' items))"

subsection \<open>\_getCustomTablesDirs\<close>

definition candidates :: "env \<Rightarrow> string list" where
  "candidates e =
     (if \<not> secure e \<and> enableScratchpadDir e
      then [pathJoin e (getScratchpadDir e) ''brailleTables''] else [])
     @ map (\<lambda>addon. pathJoin e addon ''brailleTables'') (getRunningAddons e)"

definition getCustomTablesDirs :: "env \<Rightarrow> string list" where
  "getCustomTablesDirs e = filter (isdir e) (candidates e)"

subsection \<open>initialize\<close>

text \<open>\<^verbatim>\<open>fileName.endswith(".ini")\<close>.\<close>

definition endswith :: "string \<Rightarrow> string \<Rightarrow> bool" where
  "endswith s suffix' =
     (length suffix' \<le> length s \<and> drop (length s - length suffix') s = suffix')"

text \<open>
  The body of the inner \<^verbatim>\<open>try\<close>: open and parse the file, then apply its dictionary.
\<close>

definition tryManifest :: "env \<Rightarrow> state \<Rightarrow> string \<Rightarrow> exception option \<times> state" where
  "tryManifest e st path =
     (case loadManifest e path of
        Inl exc \<Rightarrow> (Some exc, st)
      | Inr data \<Rightarrow> loadCustomTablesConfig e st data)"

text \<open>
  The loop over the names of one directory. \<^verbatim>\<open>except Exception\<close> catches every
  exception of the \<^verbatim>\<open>try\<close> body (it is logged) and the loop goes on from the state at
  the raise.
\<close>

fun loadDirFiles :: "env \<Rightarrow> string \<Rightarrow> state \<Rightarrow> string list \<Rightarrow> state" where
  "loadDirFiles e dir' st [] = st"
| "loadDirFiles e dir' st (fileName' # dirList) =
     (let path = pathJoin e dir' fileName' in
      if isfile e path \<and> endswith fileName' ''.ini''
      then (case tryManifest e st path of
              (None, st') \<Rightarrow> loadDirFiles e dir' st' dirList
            | (Some exc, st') \<Rightarrow> loadDirFiles e dir' st' dirList)
      else loadDirFiles e dir' st dirList)"

text \<open>
  The loop over \<^verbatim>\<open>reversed(customDirs)\<close>, given the reversed list. Only
  \<^verbatim>\<open>FileNotFoundError\<close> of \<^verbatim>\<open>os.listdir\<close> is caught (logged, next directory); any other
  exception of \<^verbatim>\<open>os.listdir\<close> leaves \<^verbatim>\<open>initialize\<close>.
\<close>

fun loadCustomDirs :: "env \<Rightarrow> state \<Rightarrow> string list \<Rightarrow> exception option \<times> state" where
  "loadCustomDirs e st [] = (None, st)"
| "loadCustomDirs e st (dir' # dirs) =
     (case listdir e dir' of
        Inl exc \<Rightarrow>
          (if exc = FileNotFoundError then loadCustomDirs e st dirs else (Some exc, st))
      | Inr dirList \<Rightarrow> loadCustomDirs e (loadDirFiles e dir' st dirList) dirs)"

definition initialize :: "env \<Rightarrow> state \<Rightarrow> exception option \<times> state" where
  "initialize e st =
     (case addTables st (builtinTables (gettext e)) of
        (Some exc, st1) \<Rightarrow> (Some exc, st1)
      | (None, st1) \<Rightarrow>
          (let customDirs = getCustomTablesDirs e;
               st2 = st1\<lparr>tablesDirs := customDirs @ tablesDirs st1\<rparr>
           in loadCustomDirs e st2 (rev customDirs)))"

subsection \<open>Reachable states\<close>

text \<open>
  The states the module can be in: the state after import, and what the functions that
  write the globals make of a reachable state, whatever their arguments and whether they
  raise or not.
\<close>

inductive reachable :: "state \<Rightarrow> bool" where
  reach_import: "reachable initialState"
| reach_addTable: "reachable st \<Longrightarrow> reachable (snd (addTable st f d c out inp))"
| reach_loadCustomTablesConfig:
    "reachable st \<Longrightarrow> reachable (snd (loadCustomTablesConfig e st data))"
| reach_initialize: "reachable st \<Longrightarrow> reachable (snd (initialize e st))"
| reach_terminate: "reachable st \<Longrightarrow> reachable (terminate st)"

section \<open>The invariant of the registry\<close>

text \<open>Every registered table can be used for output or for input.\<close>

definition usable :: "state \<Rightarrow> bool" where
  "usable st = list_all (\<lambda>t. output t \<or> input t) (map snd (tables st))"

section \<open>What one directory registers\<close>

text \<open>
  \<open>dirTable e dir f\<close> is the entry of \<open>f\<close> after the loop of \<^verbatim>\<open>initialize\<close> has processed
  the one directory \<open>dir\<close> on the empty registry: the descriptor that the manifests of
  \<open>dir\<close> register for \<open>f\<close> (the last of them, when several do), or \<open>KeyError\<close> when they
  register none.
\<close>

definition dirTable :: "env \<Rightarrow> string \<Rightarrow> string \<Rightarrow> exception + BrailleTable" where
  "dirTable e dir' f = getTable (snd (loadCustomDirs e initialState [dir'])) f"

text \<open>\<^verbatim>\<open>d[k] = v\<close> for each pair of a list, in order.\<close>

fun dict_update_all :: "('k \<times> 'v) list \<Rightarrow> ('k \<times> 'v) list \<Rightarrow> ('k \<times> 'v) list" where
  "dict_update_all kvs [] = kvs"
| "dict_update_all kvs ((k, v) # ups) = dict_update_all (dict_setitem k v kvs) ups"

section \<open>Display-name resolution as the specification words it\<close>

text \<open>
  The fallback chain in the words of the specification: the value at the exact locale key
  if the key is present, otherwise the value at the language-only prefix, otherwise the
  value at \<^verbatim>\<open>"en_US"\<close>, otherwise the value at \<^verbatim>\<open>"en"\<close>, otherwise the file name.
\<close>

definition resolve_spec :: "(string \<rightharpoonup> pyValue) \<Rightarrow> string \<Rightarrow> string \<Rightarrow> pyValue" where
  "resolve_spec value lang fileName' =
     (case value lang of
        Some v \<Rightarrow> v
      | None \<Rightarrow>
          (case value (split_first lang) of
             Some v \<Rightarrow> v
           | None \<Rightarrow>
               (case value ''en_US'' of
                  Some v \<Rightarrow> v
                | None \<Rightarrow> (case value ''en'' of Some v \<Rightarrow> v | None \<Rightarrow> PyStr fileName'))))"

text \<open>The mapping without the keys whose value is the empty string (or, where a value is
  no string, another false value).\<close>

definition drop_empty :: "(string \<rightharpoonup> pyValue) \<Rightarrow> (string \<rightharpoonup> pyValue)" where
  "drop_empty value = (\<lambda>k. if truthy (value k) then value k else None)"

text \<open>
  The chain as a walk through its keys in order: a key that is missing, or whose value is
  the empty string or false otherwise, falls through to the next key, and after the last
  key to the file name.
\<close>

fun fall_through :: "(string \<rightharpoonup> pyValue) \<Rightarrow> string list \<Rightarrow> string \<Rightarrow> pyValue" where
  "fall_through value [] fileName' = PyStr fileName'"
| "fall_through value (k # ks) fileName' =
     (case value k of
        None \<Rightarrow> fall_through value ks fileName'
      | Some v \<Rightarrow> if truthy (Some v) then v else fall_through value ks fileName')"

section \<open>Example inputs\<close>

text \<open>
  An environment with the given active locale, the identity as translation function and
  no custom directory.
\<close>

definition localeEnv :: "string \<Rightarrow> env" where
  "localeEnv lang =
     \<lparr>gettext = (\<lambda>s. s), getLanguage = lang, secure = True, enableScratchpadDir = False,
      getScratchpadDir = ''scratchpad'', getRunningAddons = [],
      pathJoin = (\<lambda>a b. a @ ''/'' @ b), isdir = (\<lambda>p. False), isfile = (\<lambda>p. False),
      listdir = (\<lambda>p. Inl FileNotFoundError),
      loadManifest = (\<lambda>p. Inl (OtherException ''no such file''))\<rparr>"

text \<open>A table configuration with only a display name given per locale.\<close>

definition localizedCfg :: "(string \<rightharpoonup> pyValue) \<Rightarrow> tableCfg" where
  "localizedCfg value =
     \<lparr>cfg_displayName = Some (DNDict value), cfg_contracted = None, cfg_output = None,
      cfg_input = None\<rparr>"

text \<open>The mapping \<^verbatim>\<open>{"en": "X", "en_US": "Y", "de": "Z"}\<close> of the specification.\<close>

definition xyzNames :: "string \<rightharpoonup> pyValue" where
  "xyzNames = [''en'' \<mapsto> PyStr ''X'', ''en_US'' \<mapsto> PyStr ''Y'', ''de'' \<mapsto> PyStr ''Z'']"

text \<open>The mapping \<^verbatim>\<open>{"de": "", "en": "X"}\<close>: the German name is the empty string.\<close>

definition emptyDeNames :: "string \<rightharpoonup> pyValue" where
  "emptyDeNames = [''de'' \<mapsto> PyStr '''', ''en'' \<mapsto> PyStr ''X'']"

text \<open>The mapping \<^verbatim>\<open>{"de_AT": "", "de": "", "en_US": "Y", "en": "X"}\<close>: both German names
  are the empty string.\<close>

definition emptyGermanNames :: "string \<rightharpoonup> pyValue" where
  "emptyGermanNames =
     [''de_AT'' \<mapsto> PyStr '''', ''de'' \<mapsto> PyStr '''', ''en_US'' \<mapsto> PyStr ''Y'', ''en'' \<mapsto> PyStr ''X'']"

text \<open>A table configuration with no key at all.\<close>

definition emptyCfg :: tableCfg where
  "emptyCfg = \<lparr>cfg_displayName = None, cfg_contracted = None, cfg_output = None, cfg_input = None\<rparr>"

text \<open>A registry with two tables, \<^verbatim>\<open>foo.ctb\<close> registered before \<^verbatim>\<open>bar.ctb\<close>.\<close>

definition twoTables :: state where
  "twoTables =
     \<lparr>tablesDirs = [TABLES_DIR],
      tables = [
        (''foo.ctb'', \<lparr>fileName = ''foo.ctb'', displayName = PyStr ''Old'', contracted = True,
                        output = True, input = False\<rparr>),
        (''bar.ctb'', \<lparr>fileName = ''bar.ctb'', displayName = PyStr ''Bar'', contracted = False,
                        output = True, input = True\<rparr>)]\<rparr>"

text \<open>
  Environments with two custom directories, the scratchpad's before the one of the
  add-on \<^verbatim>\<open>addons/a\<close>, given what \<^verbatim>\<open>os.listdir\<close> and the manifest loader return.
\<close>

definition customEnv ::
  "(string \<Rightarrow> exception + string list) \<Rightarrow> (string \<Rightarrow> exception + (string \<times> tableCfg) list) \<Rightarrow> env" where
  "customEnv listdir' loadManifest' =
     \<lparr>gettext = (\<lambda>s. s), getLanguage = ''en'', secure = False, enableScratchpadDir = True,
      getScratchpadDir = ''scratchpad'', getRunningAddons = [''addons/a''],
      pathJoin = (\<lambda>a b. a @ ''/'' @ b), isdir = (\<lambda>p. True), isfile = (\<lambda>p. True),
      listdir = listdir', loadManifest = loadManifest'\<rparr>"

text \<open>A table configuration with a literal display name and the default flags.\<close>

definition namedCfg :: "string \<Rightarrow> tableCfg" where
  "namedCfg name =
     \<lparr>cfg_displayName = Some (DNStr name), cfg_contracted = None, cfg_output = None,
      cfg_input = None\<rparr>"

text \<open>A table configuration whose display name is neither a string nor a dictionary (a
  list, as ConfigObj returns for a value with commas).\<close>

definition malformedCfg :: tableCfg where
  "malformedCfg =
     \<lparr>cfg_displayName = Some DNOther, cfg_contracted = None, cfg_output = None,
      cfg_input = None\<rparr>"

text \<open>
  The scratchpad holds a manifest that does not parse, a file that is no manifest and a
  manifest defining \<^verbatim>\<open>foo.ctb\<close>; the add-on defines \<^verbatim>\<open>foo.ctb\<close> and \<^verbatim>\<open>bar.ctb\<close>.
\<close>

definition twoDirsEnv :: env where
  "twoDirsEnv = customEnv
     (\<lambda>dir'. if dir' = ''scratchpad/brailleTables'' then Inr [''bad.ini'', ''notes.txt'', ''good.ini'']
             else if dir' = ''addons/a/brailleTables'' then Inr [''tables.ini'']
             else Inl FileNotFoundError)
     (\<lambda>path. if path = ''scratchpad/brailleTables/bad.ini'' then Inl (OtherException ''parse error'')
             else if path = ''scratchpad/brailleTables/good.ini''
               then Inr [(''foo.ctb'', namedCfg ''Scratchpad foo'')]
             else if path = ''addons/a/brailleTables/tables.ini''
               then Inr [(''foo.ctb'', namedCfg ''Addon foo''), (''bar.ctb'', namedCfg ''Addon bar'')]
             else Inl (OtherException ''cannot open''))"

text \<open>
  Scratchpad and add-on both define \<^verbatim>\<open>foo.ctb\<close>; in the scratchpad's manifest an entry
  with a malformed display name comes first.
\<close>

definition shadowedEnv :: env where
  "shadowedEnv = customEnv
     (\<lambda>dir'. if dir' = ''scratchpad/brailleTables'' then Inr [''tables.ini'']
             else if dir' = ''addons/a/brailleTables'' then Inr [''tables.ini'']
             else Inl FileNotFoundError)
     (\<lambda>path. if path = ''scratchpad/brailleTables/tables.ini''
               then Inr [(''aaa.ctb'', malformedCfg), (''foo.ctb'', namedCfg ''Scratchpad foo'')]
             else if path = ''addons/a/brailleTables/tables.ini''
               then Inr [(''foo.ctb'', namedCfg ''Addon foo'')]
             else Inl (OtherException ''cannot open''))"

text \<open>
  A registry whose display names differ in the case of the first letter, with one name
  registered twice.
\<close>

definition mixedCaseTables :: state where
  "mixedCaseTables =
     \<lparr>tablesDirs = [TABLES_DIR],
      tables = [
        (''b.ctb'', \<lparr>fileName = ''b.ctb'', displayName = PyStr ''apple'', contracted = False,
                      output = True, input = True\<rparr>),
        (''c.ctb'', \<lparr>fileName = ''c.ctb'', displayName = PyStr ''Zebra'', contracted = False,
                      output = True, input = True\<rparr>),
        (''a.ctb'', \<lparr>fileName = ''a.ctb'', displayName = PyStr ''apple'', contracted = True,
                      output = True, input = True\<rparr>)]\<rparr>"

text \<open>
  The scratchpad holds one manifest; in it the English name of \<^verbatim>\<open>foo.ctb\<close> is written
  with a comma, \<^verbatim>\<open>en = Foo, table\<close>, which the manifest loader returns as a list. The
  directory of the add-on is empty.
\<close>

definition listNameEnv :: env where
  "listNameEnv = customEnv
     (\<lambda>dir'. if dir' = ''scratchpad/brailleTables'' then Inr [''tables.ini'']
             else if dir' = ''addons/a/brailleTables'' then Inr []
             else Inl FileNotFoundError)
     (\<lambda>path. if path = ''scratchpad/brailleTables/tables.ini''
               then Inr [(''foo.ctb'', localizedCfg [''en'' \<mapsto> PyList [''Foo'', ''table'']])]
             else Inl (OtherException ''cannot open''))"

section \<open>Properties of the dict operations\<close>

lemma dict_getitem_setitem:
  "dict_getitem (dict_setitem k v kvs) k' = (if k' = k then Inr v else dict_getitem kvs k')"
  by (induction kvs) auto

lemma dict_setitem_values: "snd ` set (dict_setitem k v kvs) \<subseteq> insert v (snd ` set kvs)"
  by (induction k v kvs rule: dict_setitem.induct) auto

lemma dict_setitem_keys: "fst ` set (dict_setitem k v kvs) = insert k (fst ` set kvs)"
  by (induction k v kvs rule: dict_setitem.induct) auto

lemma dict_setitem_present:
  "k \<in> fst ` set kvs \<Longrightarrow> map fst (dict_setitem k v kvs) = map fst kvs"
  by (induction k v kvs rule: dict_setitem.induct) auto

lemma dict_getitem_KeyError: "(dict_getitem kvs k = Inl KeyError) = (k \<notin> fst ` set kvs)"
  by (induction kvs k rule: dict_getitem.induct) auto

lemma dict_getitem_Inr: "(\<exists>v. dict_getitem kvs k = Inr v) = (k \<in> fst ` set kvs)"
  by (induction kvs k rule: dict_getitem.induct) auto

section \<open>The static data\<close>

text \<open>The keys of the literal \<open>RENAMED_TABLES\<close> are distinct, so the association list is
  the dictionary.\<close>

lemma RENAMED_TABLES_distinct: "distinct (map fst RENAMED_TABLES)"
  by (simp add: RENAMED_TABLES_def)

section \<open>Display-name resolution without the dead handler\<close>

lemma getCustomTableDisplayName_eq:
  "getCustomTableDisplayName e f cfg =
     (case cfg_displayName cfg of
        None \<Rightarrow> Inl ValueError
      | Some DNOther \<Rightarrow> Inl ValueError
      | Some (DNStr s) \<Rightarrow> Inr (PyStr (gettext e s))
      | Some (DNDict value) \<Rightarrow>
          (let lang = getLanguage e;
               d0 = value lang;
               d1 = (if \<not> truthy d0 then value (split_first lang) else d0);
               d2 = (if \<not> truthy d1 then value ''en_US'' else d1);
               d3 = (if \<not> truthy d2 then value ''en'' else d2);
               d4 = (if \<not> truthy d3 then PyStr f else (case d3 of Some v \<Rightarrow> v | None \<Rightarrow> PyStr f))
           in Inr d4))"
  by (simp add: getCustomTableDisplayName_def dict_get_def
      split: option.splits displayNameValue.splits)

section \<open>Every function keeps the invariant\<close>

lemma usable_iff: "usable st = (\<forall>t \<in> snd ` set (tables st). output t \<or> input t)"
  by (auto simp: usable_def list_all_iff)

lemma usable_addTable: "usable st \<Longrightarrow> usable (snd (addTable st f d c out inp))"
proof -
  assume u: "usable st"
  show ?thesis
  proof (cases "\<not> out \<and> \<not> inp")
    case True
    then show ?thesis using u by (simp add: addTable_def)
  next
    case False
    let ?t = "\<lparr>fileName = f, displayName = d, contracted = c, output = out, input = inp\<rparr>"
    have "snd ` set (dict_setitem f ?t (tables st)) \<subseteq> insert ?t (snd ` set (tables st))"
      by (rule dict_setitem_values)
    moreover have "\<forall>t \<in> insert ?t (snd ` set (tables st)). output t \<or> input t"
      using u False by (simp add: usable_iff)
    ultimately have "\<forall>t \<in> snd ` set (dict_setitem f ?t (tables st)). output t \<or> input t"
      by blast
    then show ?thesis using False
      by (auto simp: usable_iff addTable_def Let_def)
  qed
qed

lemma usable_addTables: "usable st \<Longrightarrow> usable (snd (addTables st calls))"
proof (induction calls arbitrary: st)
  case Nil
  then show ?case by simp
next
  case (Cons call calls)
  obtain f d c out inp where call: "call = (f, d, c, out, inp)"
    by (cases call) auto
  obtain x st' where r: "addTable st f d c out inp = (x, st')"
    by (cases "addTable st f d c out inp") auto
  have "usable st'" using usable_addTable [OF Cons.prems, of f d c out inp] r by simp
  then show ?case using Cons.IH [of st'] call r by (cases x) auto
qed

lemma usable_loadCustomTablesConfig:
  "usable st \<Longrightarrow> usable (snd (loadCustomTablesConfig e st data))"
proof (induction data arbitrary: st)
  case Nil
  then show ?case by simp
next
  case (Cons item items)
  obtain f cfg where item: "item = (f, cfg)" by (cases item) auto
  show ?case
  proof (cases "getCustomTableDisplayName e f cfg")
    case (Inl exc)
    then show ?thesis using Cons.prems item by simp
  next
    case (Inr d)
    let ?r = "addTable st f d (dict_get_default (cfg_contracted cfg) False)
                (dict_get_default (cfg_output cfg) True) (dict_get_default (cfg_input cfg) True)"
    obtain x st' where r: "?r = (x, st')" by (cases ?r) auto
    have "usable st'" using usable_addTable [OF Cons.prems] r
      by (metis snd_conv)
    then show ?thesis using Cons.IH [of st'] item Inr r by (cases x) auto
  qed
qed

lemma usable_tryManifest: "usable st \<Longrightarrow> usable (snd (tryManifest e st path))"
  by (auto simp: tryManifest_def usable_loadCustomTablesConfig split: sum.splits)

lemma usable_loadDirFiles: "usable st \<Longrightarrow> usable (loadDirFiles e dir' st dirList)"
proof (induction dirList arbitrary: st)
  case Nil
  then show ?case by simp
next
  case (Cons n ns)
  let ?path = "pathJoin e dir' n"
  obtain x st' where r: "tryManifest e st ?path = (x, st')"
    by (cases "tryManifest e st ?path") auto
  have "usable st'" using usable_tryManifest [OF Cons.prems, of e ?path] r by simp
  then show ?case using Cons r by (cases x) (auto simp: Let_def)
qed

lemma usable_loadCustomDirs: "usable st \<Longrightarrow> usable (snd (loadCustomDirs e st dirs))"
  by (induction dirs arbitrary: st) (auto simp: usable_loadDirFiles split: sum.splits)

lemma usable_tablesDirs_update: "usable (st\<lparr>tablesDirs := ds\<rparr>) = usable st"
  by (simp add: usable_def)

lemma usable_initialize: "usable st \<Longrightarrow> usable (snd (initialize e st))"
proof -
  assume u: "usable st"
  obtain x st1 where r: "addTables st (builtinTables (gettext e)) = (x, st1)"
    by (cases "addTables st (builtinTables (gettext e))") auto
  have u1: "usable st1" using usable_addTables [OF u, of "builtinTables (gettext e)"] r by simp
  show ?thesis
  proof (cases x)
    case None
    then show ?thesis using r u1
      by (simp add: initialize_def Let_def usable_loadCustomDirs usable_tablesDirs_update)
  next
    case (Some exc)
    then show ?thesis using r u1 by (simp add: initialize_def)
  qed
qed

lemma usable_initialState: "usable initialState"
  by (simp add: usable_def initialState_def)

lemma usable_terminate: "usable (terminate st)"
  by (simp add: usable_def terminate_def)

lemma reachable_usable: "reachable st \<Longrightarrow> usable st"
  by (induction rule: reachable.induct)
     (simp_all add: usable_initialState usable_addTable usable_loadCustomTablesConfig
        usable_initialize usable_terminate)

section \<open>Registered file names only grow during a load\<close>

lemma addTable_keys:
  "fst ` set (tables st) \<subseteq> fst ` set (tables (snd (addTable st f d c out inp)))"
  by (auto simp: addTable_def Let_def dict_setitem_keys)

lemma addTable_registers:
  "out \<or> inp \<Longrightarrow> addTable st f d c out inp
     = (None, st\<lparr>tables := dict_setitem f
          \<lparr>fileName = f, displayName = d, contracted = c, output = out, input = inp\<rparr>
          (tables st)\<rparr>)"
  by (auto simp: addTable_def Let_def)

lemma addTable_raises: "\<not> out \<Longrightarrow> \<not> inp \<Longrightarrow> addTable st f d c out inp = (Some ValueError, st)"
  by (simp add: addTable_def)

lemma addTables_ok:
  "list_all (\<lambda>(f, d, c, out, inp). out \<or> inp) calls
   \<Longrightarrow> fst (addTables st calls) = None
       \<and> fst ` set (tables st) \<union> fst ` set calls \<subseteq> fst ` set (tables (snd (addTables st calls)))"
proof (induction calls arbitrary: st)
  case Nil
  then show ?case by simp
next
  case (Cons call calls)
  obtain f d c out inp where call: "call = (f, d, c, out, inp)"
    by (cases call) auto
  have ok: "out \<or> inp" and rest: "list_all (\<lambda>(f, d, c, out, inp). out \<or> inp) calls"
    using Cons.prems call by auto
  let ?st' = "st\<lparr>tables := dict_setitem f
          \<lparr>fileName = f, displayName = d, contracted = c, output = out, input = inp\<rparr>
          (tables st)\<rparr>"
  have step: "addTables st (call # calls) = addTables ?st' calls"
    using call addTable_registers [OF ok] by simp
  have keys: "fst ` set (tables ?st') = insert f (fst ` set (tables st))"
    by (simp add: dict_setitem_keys)
  show ?case
    using Cons.IH [OF rest, of ?st'] step keys call by auto
qed

lemma builtinTables_usable:
  "list_all (\<lambda>(f, d, c, out, inp). out \<or> inp) (builtinTables g)"
  by (simp add: builtinTables_def)

lemma builtinTables_ok: "fst (addTables st (builtinTables g)) = None"
  using addTables_ok [OF builtinTables_usable] by blast

lemma builtinTables_keys:
  "fst ` set (builtinTables g) \<subseteq> fst ` set (tables (snd (addTables st (builtinTables g))))"
  using addTables_ok [OF builtinTables_usable, of st g] by blast

lemma loadCustomTablesConfig_keys:
  "fst ` set (tables st) \<subseteq> fst ` set (tables (snd (loadCustomTablesConfig e st data)))"
proof (induction data arbitrary: st)
  case Nil
  then show ?case by simp
next
  case (Cons item items)
  obtain f cfg where item: "item = (f, cfg)" by (cases item) auto
  show ?case
  proof (cases "getCustomTableDisplayName e f cfg")
    case (Inl exc)
    then show ?thesis using item by simp
  next
    case (Inr d)
    let ?r = "addTable st f d (dict_get_default (cfg_contracted cfg) False)
                (dict_get_default (cfg_output cfg) True) (dict_get_default (cfg_input cfg) True)"
    obtain x st' where r: "?r = (x, st')" by (cases ?r) auto
    have "fst ` set (tables st) \<subseteq> fst ` set (tables st')"
      using addTable_keys [of st f d] r by (metis snd_conv)
    then show ?thesis using Cons.IH [of st'] item Inr r by (cases x) auto
  qed
qed

lemma tryManifest_keys:
  "fst ` set (tables st) \<subseteq> fst ` set (tables (snd (tryManifest e st path)))"
proof (cases "loadManifest e path")
  case (Inl exc)
  then show ?thesis by (simp add: tryManifest_def)
next
  case (Inr data)
  then show ?thesis using loadCustomTablesConfig_keys [of st e data] by (simp add: tryManifest_def)
qed

lemma loadDirFiles_step:
  "loadDirFiles e dir' st (n # ns) =
     loadDirFiles e dir'
       (if isfile e (pathJoin e dir' n) \<and> endswith n ''.ini''
        then snd (tryManifest e st (pathJoin e dir' n)) else st) ns"
  by (cases "tryManifest e st (pathJoin e dir' n)")
     (auto simp: Let_def split: option.splits)

lemma loadDirFiles_append:
  "loadDirFiles e dir' st (ns @ ms) = loadDirFiles e dir' (loadDirFiles e dir' st ns) ms"
  by (induction ns arbitrary: st) (simp_all only: append.simps loadDirFiles.simps(1) loadDirFiles_step)

lemma loadDirFiles_keys:
  "fst ` set (tables st) \<subseteq> fst ` set (tables (loadDirFiles e dir' st ns))"
proof (induction ns arbitrary: st)
  case Nil
  then show ?case by simp
next
  case (Cons n ns)
  let ?st' = "if isfile e (pathJoin e dir' n) \<and> endswith n ''.ini''
        then snd (tryManifest e st (pathJoin e dir' n)) else st"
  have "fst ` set (tables st) \<subseteq> fst ` set (tables ?st')"
    using tryManifest_keys [of st e] by auto
  then have "fst ` set (tables st) \<subseteq> fst ` set (tables (loadDirFiles e dir' ?st' ns))"
    using Cons [of ?st'] by blast
  then show ?case by (simp only: loadDirFiles_step)
qed

lemma loadCustomDirs_keys:
  "fst ` set (tables st) \<subseteq> fst ` set (tables (snd (loadCustomDirs e st dirs)))"
proof (induction dirs arbitrary: st)
  case Nil
  then show ?case by simp
next
  case (Cons d ds)
  show ?case
  proof (cases "listdir e d")
    case (Inl exc)
    then show ?thesis using Cons [of st] by simp
  next
    case (Inr names)
    have "fst ` set (tables st) \<subseteq> fst ` set (tables (loadDirFiles e d st names))"
      by (rule loadDirFiles_keys)
    then show ?thesis using Cons [of "loadDirFiles e d st names"] Inr by auto
  qed
qed

lemma initialize_unfold:
  "initialize e st =
     loadCustomDirs e
       ((snd (addTables st (builtinTables (gettext e))))
          \<lparr>tablesDirs := getCustomTablesDirs e
             @ tablesDirs (snd (addTables st (builtinTables (gettext e))))\<rparr>)
       (rev (getCustomTablesDirs e))"
  using builtinTables_ok [of st "gettext e"]
  by (cases "addTables st (builtinTables (gettext e))") (simp add: initialize_def Let_def)

lemma initialize_keys:
  "fst ` set (builtinTables (gettext e)) \<subseteq> fst ` set (tables (snd (initialize e st)))"
proof -
  let ?st1 = "snd (addTables st (builtinTables (gettext e)))"
  let ?st2 = "?st1\<lparr>tablesDirs := getCustomTablesDirs e @ tablesDirs ?st1\<rparr>"
  have "fst ` set (builtinTables (gettext e)) \<subseteq> fst ` set (tables ?st2)"
    using builtinTables_keys [of "gettext e" st] by simp
  also have "\<dots> \<subseteq> fst ` set (tables (snd (loadCustomDirs e ?st2 (rev (getCustomTablesDirs e)))))"
    by (rule loadCustomDirs_keys)
  finally show ?thesis by (simp only: initialize_unfold)
qed

lemma key_of_item: "(k, v) \<in> set kvs \<Longrightarrow> k \<in> fst ` set kvs"
  by force

lemma renamed_targets_builtin:
  "snd ` set RENAMED_TABLES \<subseteq> fst ` set (builtinTables g)"
  unfolding RENAMED_TABLES_def
  apply (simp only: list.set image_insert image_empty snd_conv insert_subset empty_subsetI simp_thms)
  apply (intro conjI)
  unfolding builtinTables_def
  apply (rule key_of_item, (rule list.set_intros(1) | rule list.set_intros(2))+)+
  done

section \<open>A manifest that fails does not stop the load\<close>

lemma loadCustomTablesConfig_Cons:
  "loadCustomTablesConfig e st ((f, cfg) # items) =
     (case getCustomTableDisplayName e f cfg of
        Inl exc \<Rightarrow> (Some exc, st)
      | Inr d \<Rightarrow>
          if \<not> dict_get_default (cfg_output cfg) True \<and> \<not> dict_get_default (cfg_input cfg) True
          then (Some ValueError, st)
          else loadCustomTablesConfig e
                 (st\<lparr>tables := dict_setitem f
                    \<lparr>fileName = f, displayName = d,
                       contracted = dict_get_default (cfg_contracted cfg) False,
                       output = dict_get_default (cfg_output cfg) True,
                       input = dict_get_default (cfg_input cfg) True\<rparr> (tables st)\<rparr>) items)"
  by (simp add: addTable_def Let_def split: sum.splits)

lemma loadCustomTablesConfig_raises_same:
  "fst (loadCustomTablesConfig e st data) = fst (loadCustomTablesConfig e st' data)"
proof (induction data arbitrary: st st')
  case Nil
  then show ?case by simp
next
  case (Cons item items)
  obtain f cfg where item: "item = (f, cfg)" by (cases item) auto
  show ?case
    unfolding item loadCustomTablesConfig_Cons
    using Cons.IH by (auto split: sum.splits)
qed

lemma loadCustomTablesConfig_registers:
  "fst (loadCustomTablesConfig e st data) = None
   \<Longrightarrow> fst ` set data \<subseteq> fst ` set (tables (snd (loadCustomTablesConfig e st data)))"
proof (induction data arbitrary: st)
  case Nil
  then show ?case by simp
next
  case (Cons item items)
  obtain f cfg where item: "item = (f, cfg)" by (cases item) auto
  from Cons.prems obtain d where d: "getCustomTableDisplayName e f cfg = Inr d"
    unfolding item loadCustomTablesConfig_Cons by (auto split: sum.splits)
  let ?t = "\<lparr>fileName = f, displayName = d,
              contracted = dict_get_default (cfg_contracted cfg) False,
              output = dict_get_default (cfg_output cfg) True,
              input = dict_get_default (cfg_input cfg) True\<rparr>"
  let ?st' = "st\<lparr>tables := dict_setitem f ?t (tables st)\<rparr>"
  have flags: "\<not> (\<not> dict_get_default (cfg_output cfg) True \<and> \<not> dict_get_default (cfg_input cfg) True)"
    using Cons.prems d unfolding item loadCustomTablesConfig_Cons by (auto split: if_splits)
  have step: "loadCustomTablesConfig e st (item # items) = loadCustomTablesConfig e ?st' items"
    unfolding item loadCustomTablesConfig_Cons using d flags by auto
  have ok: "fst (loadCustomTablesConfig e ?st' items) = None"
    using Cons.prems step by simp
  have "f \<in> fst ` set (tables ?st')"
    by (simp add: dict_setitem_keys)
  then have "f \<in> fst ` set (tables (snd (loadCustomTablesConfig e ?st' items)))"
    using loadCustomTablesConfig_keys [of ?st' e items] by blast
  then show ?case
    using Cons.IH [OF ok] step item by auto
qed

lemma loadDirFiles_registers:
  assumes "n \<in> set names"
    and "isfile e (pathJoin e dir' n)" and "endswith n ''.ini''"
    and "loadManifest e (pathJoin e dir' n) = Inr data"
    and "fst (loadCustomTablesConfig e st0 data) = None"
  shows "fst ` set data \<subseteq> fst ` set (tables (loadDirFiles e dir' st names))"
proof -
  obtain pre post where names: "names = pre @ n # post"
    using assms(1) by (auto dest: split_list)
  let ?s = "loadDirFiles e dir' st pre"
  let ?s' = "snd (tryManifest e ?s (pathJoin e dir' n))"
  have ok: "fst (loadCustomTablesConfig e ?s data) = None"
    using assms(5) loadCustomTablesConfig_raises_same [of e ?s data st0] by simp
  have "fst ` set data \<subseteq> fst ` set (tables ?s')"
    using loadCustomTablesConfig_registers [OF ok] assms(4) by (simp add: tryManifest_def)
  also have "\<dots> \<subseteq> fst ` set (tables (loadDirFiles e dir' ?s' post))"
    by (rule loadDirFiles_keys)
  also have "loadDirFiles e dir' ?s' post = loadDirFiles e dir' st names"
    unfolding names loadDirFiles_append [of e dir' st pre] loadDirFiles_step [of e dir' ?s n]
    using assms(2,3) by simp
  finally show ?thesis .
qed

lemma loadCustomDirs_no_exception:
  "\<forall>dir' \<in> set dirs. \<forall>exc. listdir e dir' = Inl exc \<longrightarrow> exc = FileNotFoundError
   \<Longrightarrow> fst (loadCustomDirs e st dirs) = None"
  by (induction dirs arbitrary: st) (auto split: sum.splits)

lemma loadCustomDirs_registers:
  assumes "\<forall>dir' \<in> set dirs. \<forall>exc. listdir e dir' = Inl exc \<longrightarrow> exc = FileNotFoundError"
    and "d \<in> set dirs" and "listdir e d = Inr names" and "n \<in> set names"
    and "isfile e (pathJoin e d n)" and "endswith n ''.ini''"
    and "loadManifest e (pathJoin e d n) = Inr data"
    and "fst (loadCustomTablesConfig e st0 data) = None"
  shows "fst ` set data \<subseteq> fst ` set (tables (snd (loadCustomDirs e st dirs)))"
  using assms(1,2)
proof (induction dirs arbitrary: st)
  case Nil
  then show ?case by simp
next
  case (Cons x xs)
  have listable: "\<forall>dir' \<in> set xs. \<forall>exc. listdir e dir' = Inl exc \<longrightarrow> exc = FileNotFoundError"
    using Cons.prems(1) by simp
  show ?case
  proof (cases "x = d")
    case True
    have "fst ` set data \<subseteq> fst ` set (tables (loadDirFiles e d st names))"
      by (rule loadDirFiles_registers [OF assms(4-8)])
    also have "\<dots> \<subseteq> fst ` set (tables (snd (loadCustomDirs e (loadDirFiles e d st names) xs)))"
      by (rule loadCustomDirs_keys)
    finally show ?thesis using True assms(3) by simp
  next
    case False
    then have mem: "d \<in> set xs" using Cons.prems(2) by simp
    show ?thesis
    proof (cases "listdir e x")
      case (Inl exc)
      then have "exc = FileNotFoundError" using Cons.prems(1) by simp
      then show ?thesis using Inl Cons.IH [OF listable mem, of st] by simp
    next
      case (Inr ns)
      then show ?thesis using Cons.IH [OF listable mem, of "loadDirFiles e x st ns"] by simp
    qed
  qed
qed

section \<open>The first directory that registers a table wins\<close>

lemma dict_update_all_local:
  "dict_getitem (dict_update_all kvs ups) f =
     (case dict_getitem (dict_update_all [] ups) f of
        Inr v \<Rightarrow> Inr v
      | Inl x \<Rightarrow> dict_getitem kvs f)"
proof (induction ups arbitrary: kvs)
  case Nil
  then show ?case by simp
next
  case (Cons up ups)
  obtain k v where up: "up = (k, v)" by (cases up) auto
  show ?case
    unfolding up dict_update_all.simps
    by (subst Cons.IH [of "dict_setitem k v kvs"], subst Cons.IH [of "dict_setitem k v []"])
       (auto simp: dict_getitem_setitem split: sum.splits)
qed

lemma dict_update_all_append:
  "dict_update_all kvs (a @ b) = dict_update_all (dict_update_all kvs a) b"
  by (induction a arbitrary: kvs) auto

lemma loadCustomTablesConfig_updates:
  "\<exists>ups. \<forall>st. snd (loadCustomTablesConfig e st data)
      = st\<lparr>tables := dict_update_all (tables st) ups\<rparr>"
proof (induction data)
  case Nil
  have "\<forall>st. snd (loadCustomTablesConfig e st []) = st\<lparr>tables := dict_update_all (tables st) []\<rparr>"
    by simp
  then show ?case by blast
next
  case (Cons item items)
  obtain f cfg where item: "item = (f, cfg)" by (cases item) auto
  obtain ups where ups: "\<And>st. snd (loadCustomTablesConfig e st items)
      = st\<lparr>tables := dict_update_all (tables st) ups\<rparr>"
    using Cons.IH by blast
  show ?case
  proof (cases "getCustomTableDisplayName e f cfg")
    case (Inl exc)
    then have "\<forall>st. snd (loadCustomTablesConfig e st (item # items))
        = st\<lparr>tables := dict_update_all (tables st) []\<rparr>"
      unfolding item loadCustomTablesConfig_Cons by simp
    then show ?thesis by blast
  next
    case (Inr d)
    let ?t = "\<lparr>fileName = f, displayName = d,
              contracted = dict_get_default (cfg_contracted cfg) False,
              output = dict_get_default (cfg_output cfg) True,
              input = dict_get_default (cfg_input cfg) True\<rparr>"
    show ?thesis
    proof (cases "\<not> dict_get_default (cfg_output cfg) True \<and> \<not> dict_get_default (cfg_input cfg) True")
      case True
      then have "\<forall>st. snd (loadCustomTablesConfig e st (item # items))
          = st\<lparr>tables := dict_update_all (tables st) []\<rparr>"
        unfolding item loadCustomTablesConfig_Cons using Inr by simp
      then show ?thesis by blast
    next
      case False
      then have "\<forall>st. snd (loadCustomTablesConfig e st (item # items))
          = st\<lparr>tables := dict_update_all (tables st) ((f, ?t) # ups)\<rparr>"
        unfolding item loadCustomTablesConfig_Cons using Inr by (auto simp: ups)
      then show ?thesis by blast
    qed
  qed
qed

lemma tryManifest_updates:
  "\<exists>ups. \<forall>st. snd (tryManifest e st path) = st\<lparr>tables := dict_update_all (tables st) ups\<rparr>"
proof (cases "loadManifest e path")
  case (Inl exc)
  then have "\<forall>st. snd (tryManifest e st path) = st\<lparr>tables := dict_update_all (tables st) []\<rparr>"
    by (simp add: tryManifest_def)
  then show ?thesis by blast
next
  case (Inr data)
  then show ?thesis using loadCustomTablesConfig_updates [of e data] by (simp add: tryManifest_def)
qed

lemma loadDirFiles_updates:
  "\<exists>ups. \<forall>st. loadDirFiles e dir' st names = st\<lparr>tables := dict_update_all (tables st) ups\<rparr>"
proof (induction names)
  case Nil
  have "\<forall>st. loadDirFiles e dir' st [] = st\<lparr>tables := dict_update_all (tables st) []\<rparr>"
    by simp
  then show ?case by blast
next
  case (Cons n ns)
  obtain ups where ups: "\<And>st. loadDirFiles e dir' st ns
      = st\<lparr>tables := dict_update_all (tables st) ups\<rparr>"
    using Cons.IH by blast
  obtain ups1 where ups1: "\<And>st. snd (tryManifest e st (pathJoin e dir' n))
      = st\<lparr>tables := dict_update_all (tables st) ups1\<rparr>"
    using tryManifest_updates [of e "pathJoin e dir' n"] by blast
  show ?case
  proof (cases "isfile e (pathJoin e dir' n) \<and> endswith n ''.ini''")
    case True
    then have "\<forall>st. loadDirFiles e dir' st (n # ns)
        = st\<lparr>tables := dict_update_all (tables st) (ups1 @ ups)\<rparr>"
      unfolding loadDirFiles_step by (simp add: ups ups1 dict_update_all_append)
    then show ?thesis by blast
  next
    case False
    then have "\<forall>st. loadDirFiles e dir' st (n # ns)
        = st\<lparr>tables := dict_update_all (tables st) ups\<rparr>"
      unfolding loadDirFiles_step by (auto simp: ups)
    then show ?thesis by blast
  qed
qed

lemma loadCustomDirs_single_updates:
  "\<exists>ups. \<forall>st. snd (loadCustomDirs e st [d]) = st\<lparr>tables := dict_update_all (tables st) ups\<rparr>"
proof (cases "listdir e d")
  case (Inl exc)
  then have "\<forall>st. snd (loadCustomDirs e st [d]) = st\<lparr>tables := dict_update_all (tables st) []\<rparr>"
    by simp
  then show ?thesis by blast
next
  case (Inr names)
  then show ?thesis using loadDirFiles_updates [of e d names] by simp
qed

lemma loadCustomDirs_single_local:
  "getTable (snd (loadCustomDirs e st [d])) f =
     (case dirTable e d f of Inr t \<Rightarrow> Inr t | Inl x \<Rightarrow> getTable st f)"
proof -
  obtain ups where ups: "\<And>st. snd (loadCustomDirs e st [d])
      = st\<lparr>tables := dict_update_all (tables st) ups\<rparr>"
    using loadCustomDirs_single_updates [of e d] by blast
  show ?thesis
    unfolding dirTable_def getTable_def ups
    using dict_update_all_local [of "tables st" ups f]
    by (simp add: initialState_def)
qed

lemma loadCustomDirs_Cons:
  "loadCustomDirs e st (d # ds) =
     (case loadCustomDirs e st [d] of
        (None, st') \<Rightarrow> loadCustomDirs e st' ds
      | (Some exc, st') \<Rightarrow> (Some exc, st'))"
  by (auto split: sum.splits)

lemma loadCustomDirs_append:
  "fst (loadCustomDirs e st a) = None
   \<Longrightarrow> loadCustomDirs e st (a @ b) = loadCustomDirs e (snd (loadCustomDirs e st a)) b"
  by (induction a arbitrary: st) (auto split: sum.splits if_splits)

lemma loadCustomDirs_not_registering:
  "\<forall>d \<in> set ds. dirTable e d f = Inl KeyError
   \<Longrightarrow> getTable (snd (loadCustomDirs e st ds)) f = getTable st f"
proof (induction ds arbitrary: st)
  case Nil
  then show ?case by simp
next
  case (Cons d ds)
  obtain x st' where r: "loadCustomDirs e st [d] = (x, st')"
    by (cases "loadCustomDirs e st [d]") auto
  have same: "getTable st' f = getTable st f"
    using loadCustomDirs_single_local [of e st d f] r Cons.prems by simp
  show ?case
  proof (cases x)
    case None
    have "getTable (snd (loadCustomDirs e st' ds)) f = getTable st' f"
      using Cons.IH [of st'] Cons.prems by simp
    then show ?thesis
      unfolding loadCustomDirs_Cons [of e st d ds] using r None same by simp
  next
    case (Some exc)
    then show ?thesis
      unfolding loadCustomDirs_Cons [of e st d ds] using r same by simp
  qed
qed

lemma first_registering_dir_wins:
  assumes "\<forall>d \<in> set after. \<forall>exc. listdir e d = Inl exc \<longrightarrow> exc = FileNotFoundError"
    and "\<forall>d \<in> set before. dirTable e d f = Inl KeyError"
    and "dirTable e D1 f = Inr t"
  shows "getTable (snd (loadCustomDirs e st (rev (before @ D1 # after)))) f = Inr t"
proof -
  have ok: "fst (loadCustomDirs e st (rev after)) = None"
    using assms(1) by (intro loadCustomDirs_no_exception) simp
  let ?s1 = "snd (loadCustomDirs e st (rev after))"
  have split: "loadCustomDirs e st (rev (before @ D1 # after))
      = loadCustomDirs e ?s1 (D1 # rev before)"
    using loadCustomDirs_append [OF ok, of "D1 # rev before"] by simp
  obtain x s2 where r: "loadCustomDirs e ?s1 [D1] = (x, s2)"
    by (cases "loadCustomDirs e ?s1 [D1]") auto
  have at_D1: "getTable s2 f = Inr t"
    using loadCustomDirs_single_local [of e ?s1 D1 f] r assms(3) by simp
  have rest: "getTable (snd (loadCustomDirs e s2 (rev before))) f = getTable s2 f"
    using assms(2) by (intro loadCustomDirs_not_registering) simp
  show ?thesis
    unfolding split loadCustomDirs_Cons [of e ?s1 D1 "rev before"]
    using r at_D1 rest by (cases x) simp_all
qed

section \<open>Sorting the display names\<close>

lemma dict_getitem_member: "dict_getitem kvs k = Inr v \<Longrightarrow> (k, v) \<in> set kvs"
  by (induction kvs k rule: dict_getitem.induct) (auto split: if_splits)

lemma tables_tablesDirs_update: "tables (st\<lparr>tablesDirs := ds\<rparr>) = tables st"
  by simp

lemma getTable_member: "getTable st k = Inr table \<Longrightarrow> table \<in> snd ` set (tables st)"
  unfolding getTable_def by (drule dict_getitem_member) force

lemma str_name_filter:
  assumes "\<forall>table \<in> set ts. isStr (displayName table)"
  shows "filter (\<lambda>table. displayName table = name) ts
       = (if isStr name then filter (\<lambda>table. strOf (displayName table) = strOf name) ts else [])"
proof -
  have "(displayName table = name) = (isStr name \<and> strOf (displayName table) = strOf name)"
    if "table \<in> set ts" for table
  proof -
    have "isStr (displayName table)"
      using assms that by blast
    then obtain s where "displayName table = PyStr s"
      by (cases "displayName table") auto
    then show ?thesis by (cases name) auto
  qed
  then have "filter (\<lambda>table. displayName table = name) ts
      = filter (\<lambda>table. isStr name \<and> strOf (displayName table) = strOf name) ts"
    by (intro filter_cong) auto
  then show ?thesis by simp
qed

lemma sort_key_short: "length xs \<le> 1 \<Longrightarrow> sort_key f xs = xs"
  by (cases xs) auto

lemma listTables_str_names:
  assumes "\<forall>table \<in> snd ` set (tables st). isStr (displayName table)"
  shows "listTables st = Inr (sort_key (\<lambda>table. strOf (displayName table)) (map snd (tables st)))"
proof (cases "length (map snd (tables st)) \<le> 1")
  case True
  then show ?thesis by (simp add: listTables_def Let_def sort_key_short)
next
  case False
  then show ?thesis using assms by (simp add: listTables_def Let_def list_all_iff)
qed

lemma listTables_TypeError:
  assumes "t1 \<in> snd ` set (tables st)" and "t2 \<in> snd ` set (tables st)"
    and "isStr (displayName t1)" and "isList (displayName t2)"
  shows "listTables st = Inl TypeError"
proof -
  let ?vs = "map snd (tables st)"
  have m1: "t1 \<in> set ?vs" and m2: "t2 \<in> set ?vs"
    using assms(1,2) by simp_all
  have "t1 \<noteq> t2"
    using assms(3,4) by (cases "displayName t1") auto
  then have long: "\<not> length ?vs \<le> 1"
    using m1 m2 by (cases ?vs) (auto simp del: list.map)
  have "\<not> isList (displayName t1)"
    using assms(3) by (cases "displayName t1") auto
  then have not_lists: "\<not> list_all (\<lambda>table. isList (displayName table)) ?vs"
    using m1 unfolding list_all_iff by blast
  have "\<not> isStr (displayName t2)"
    using assms(4) by (cases "displayName t2") auto
  then have not_strs: "\<not> list_all (\<lambda>table. isStr (displayName table)) ?vs"
    using m2 unfolding list_all_iff by blast
  show ?thesis
    using long not_lists not_strs unfolding listTables_def Let_def by (simp only: if_False)
qed

lemma addTables_str_names:
  "list_all (\<lambda>call. isStr (fst (snd call))) calls
   \<Longrightarrow> \<forall>table \<in> snd ` set (tables st). isStr (displayName table)
   \<Longrightarrow> \<forall>table \<in> snd ` set (tables (snd (addTables st calls))). isStr (displayName table)"
proof (induction calls arbitrary: st)
  case Nil
  then show ?case by simp
next
  case (Cons call calls)
  obtain f d c out inp where call: "call = (f, d, c, out, inp)"
    by (cases call) auto
  have str: "isStr d" and rest: "list_all (\<lambda>call. isStr (fst (snd call))) calls"
    using Cons.prems(1) call by auto
  show ?case
  proof (cases "\<not> out \<and> \<not> inp")
    case True
    then have "addTables st (call # calls) = (Some ValueError, st)"
      using call by (simp add: addTable_def)
    then show ?thesis using Cons.prems(2) by (simp only: snd_conv)
  next
    case False
    let ?t = "\<lparr>fileName = f, displayName = d, contracted = c, output = out, input = inp\<rparr>"
    let ?st' = "st\<lparr>tables := dict_setitem f ?t (tables st)\<rparr>"
    have step: "addTables st (call # calls) = addTables ?st' calls"
      using call False by (auto simp: addTable_def Let_def)
    have "snd ` set (tables ?st') \<subseteq> insert ?t (snd ` set (tables st))"
      using dict_setitem_values [of f ?t "tables st"] by simp
    moreover have "\<forall>table \<in> insert ?t (snd ` set (tables st)). isStr (displayName table)"
      using Cons.prems(2) str by simp
    ultimately have "\<forall>table \<in> snd ` set (tables ?st'). isStr (displayName table)"
      by blast
    then have "\<forall>table \<in> snd ` set (tables (snd (addTables ?st' calls))). isStr (displayName table)"
      by (rule Cons.IH [OF rest])
    then show ?thesis by (simp only: step)
  qed
qed

lemma builtinTables_str_names:
  "list_all (\<lambda>call. isStr (fst (snd call))) (builtinTables g)"
  by (simp add: builtinTables_def)

section \<open>The claims\<close>

text \<open>
  C1. In every state reachable through the module's functions, every registered
  descriptor has \<open>output\<close> or \<open>input\<close> true; and \<open>addTable\<close> called with both false raises
  \<open>ValueError\<close> and leaves the state as it was.
\<close>

theorem C1_output_or_input:
  assumes "reachable st"
  shows "(\<forall>t \<in> snd ` set (tables st). output t \<or> input t)
       \<and> addTable st f d c False False = (Some ValueError, st)"
  using reachable_usable [OF assms] by (simp add: usable_iff addTable_def)

theorem C1_output_or_input_witness:
  "reachable (snd (addTable initialState ''x.ctb'' (PyStr ''X'') False False True))
   \<and> list_all (\<lambda>t. output t \<or> input t)
       (map snd (tables (snd (addTable initialState ''x.ctb'' (PyStr ''X'') False False True))))
   \<and> addTable (snd (addTable initialState ''x.ctb'' (PyStr ''X'') False False True))
       ''y.ctb'' (PyStr ''Y'') True False False
     = (Some ValueError, snd (addTable initialState ''x.ctb'' (PyStr ''X'') False False True))"
proof -
  have r: "reachable (snd (addTable initialState ''x.ctb'' (PyStr ''X'') False False True))"
    by (rule reach_addTable) (rule reach_import)
  show ?thesis
    using r C1_output_or_input [OF r, of "''y.ctb''" "PyStr ''Y''" True]
    by (simp add: list_all_iff)
qed

text \<open>
  C2. As stated the claim fails where the dictionary holds an empty string: with
  \<^verbatim>\<open>{"de": "", "en": "X"}\<close> and the locale \<^verbatim>\<open>de\<close> the specified chain gives the empty
  string at the exact key, the code gives \<^verbatim>\<open>X\<close>.
\<close>

theorem C2_fallback_chain_counterexample:
  "getCustomTableDisplayName (localeEnv ''de'') ''foo.ctb'' (localizedCfg emptyDeNames) = Inr (PyStr ''X'')
   \<and> resolve_spec emptyDeNames (getLanguage (localeEnv ''de'')) ''foo.ctb'' = PyStr ''''
   \<and> getCustomTableDisplayName (localeEnv ''de'') ''foo.ctb'' (localizedCfg emptyDeNames)
       \<noteq> Inr (resolve_spec emptyDeNames (getLanguage (localeEnv ''de'')) ''foo.ctb'')"
  by (simp add: getCustomTableDisplayName_eq localizedCfg_def emptyDeNames_def
      resolve_spec_def localeEnv_def split_first_def)

text \<open>
  C2, amended. For a dictionary, the resolution never raises and returns what the
  specified chain returns on the dictionary without its empty-string values (and without
  its other false values, where a value is no string): the value at the exact locale key
  if present and not empty, otherwise so at the prefix before the first underscore, at
  \<^verbatim>\<open>"en_US"\<close>, at \<^verbatim>\<open>"en"\<close>, otherwise the file name. With
  \<^verbatim>\<open>{"en": "X", "en_US": "Y", "de": "Z"}\<close> the locales \<^verbatim>\<open>de_AT\<close>, \<^verbatim>\<open>fr\<close> and \<^verbatim>\<open>en_US\<close>
  resolve to \<^verbatim>\<open>Z\<close>, \<^verbatim>\<open>Y\<close> and \<^verbatim>\<open>Y\<close>.
\<close>

theorem C2_fallback_chain:
  "(cfg_displayName cfg = Some (DNDict value) \<longrightarrow>
      getCustomTableDisplayName e f cfg
        = Inr (resolve_spec (drop_empty value) (getLanguage e) f))
   \<and> getCustomTableDisplayName (localeEnv ''de_AT'') f (localizedCfg xyzNames) = Inr (PyStr ''Z'')
   \<and> getCustomTableDisplayName (localeEnv ''fr'') f (localizedCfg xyzNames) = Inr (PyStr ''Y'')
   \<and> getCustomTableDisplayName (localeEnv ''en_US'') f (localizedCfg xyzNames) = Inr (PyStr ''Y'')"
proof -
  have chain: "cfg_displayName cfg = Some (DNDict value) \<longrightarrow>
      getCustomTableDisplayName e f cfg
        = Inr (resolve_spec (drop_empty value) (getLanguage e) f)"
    by (auto simp: getCustomTableDisplayName_eq resolve_spec_def drop_empty_def Let_def
        split: option.splits)
  have de_AT: "getCustomTableDisplayName (localeEnv ''de_AT'') f (localizedCfg xyzNames) = Inr (PyStr ''Z'')"
    by (simp add: getCustomTableDisplayName_eq localizedCfg_def xyzNames_def localeEnv_def
        split_first_def)
  have fr: "getCustomTableDisplayName (localeEnv ''fr'') f (localizedCfg xyzNames) = Inr (PyStr ''Y'')"
    by (simp add: getCustomTableDisplayName_eq localizedCfg_def xyzNames_def localeEnv_def
        split_first_def)
  have en_US: "getCustomTableDisplayName (localeEnv ''en_US'') f (localizedCfg xyzNames) = Inr (PyStr ''Y'')"
    by (simp add: getCustomTableDisplayName_eq localizedCfg_def xyzNames_def localeEnv_def
        split_first_def)
  show ?thesis using chain de_AT fr en_US by blast
qed

theorem C2_fallback_chain_witness:
  "cfg_displayName (localizedCfg emptyDeNames) = Some (DNDict emptyDeNames)
   \<and> resolve_spec (drop_empty emptyDeNames) (getLanguage (localeEnv ''de'')) ''foo.ctb'' = PyStr ''X''
   \<and> getCustomTableDisplayName (localeEnv ''de'') ''foo.ctb'' (localizedCfg emptyDeNames)
     = Inr (PyStr ''X'')"
proof -
  have a: "cfg_displayName (localizedCfg emptyDeNames) = Some (DNDict emptyDeNames)"
    by (simp add: localizedCfg_def)
  have b: "resolve_spec (drop_empty emptyDeNames) (getLanguage (localeEnv ''de'')) ''foo.ctb'' = PyStr ''X''"
    by (simp add: resolve_spec_def drop_empty_def emptyDeNames_def localeEnv_def split_first_def)
  show ?thesis
    using a b C2_fallback_chain [of "localizedCfg emptyDeNames" emptyDeNames "localeEnv ''de''" "''foo.ctb''"]
    by simp
qed

text \<open>
  C3. The claim is that a table configuration with no \<open>displayName\<close> resolves to the file
  name. The code raises \<open>ValueError\<close> instead: for the table \<^verbatim>\<open>foo.ctb\<close> with an empty
  configuration the resolution raises, and \<open>loadCustomTablesConfig\<close> registers nothing.
\<close>

theorem C3_missing_displayName_raises:
  "getCustomTableDisplayName e ''foo.ctb'' emptyCfg = Inl ValueError
   \<and> loadCustomTablesConfig e st [(''foo.ctb'', emptyCfg)] = (Some ValueError, st)"
  by (simp add: getCustomTableDisplayName_eq emptyCfg_def)

text \<open>
  C4. As stated the claim fails: scratchpad (first in the list) and add-on both have a
  manifest defining \<^verbatim>\<open>foo.ctb\<close>, but in the scratchpad's manifest an entry whose
  display name is neither a string nor a dictionary comes first; the resolution raises
  \<open>ValueError\<close> there, the rest of that manifest is not applied, and the entry of
  \<^verbatim>\<open>foo.ctb\<close> after the load is the add-on's.
\<close>

theorem C4_precedence_counterexample:
  "getCustomTablesDirs shadowedEnv = [''scratchpad/brailleTables'', ''addons/a/brailleTables'']
   \<and> loadManifest shadowedEnv ''scratchpad/brailleTables/tables.ini''
       = Inr [(''aaa.ctb'', malformedCfg), (''foo.ctb'', namedCfg ''Scratchpad foo'')]
   \<and> loadManifest shadowedEnv ''addons/a/brailleTables/tables.ini''
       = Inr [(''foo.ctb'', namedCfg ''Addon foo'')]
   \<and> getTable (snd (initialize shadowedEnv initialState)) ''foo.ctb''
       = Inr \<lparr>fileName = ''foo.ctb'', displayName = PyStr ''Addon foo'', contracted = False,
              output = True, input = True\<rparr>
   \<and> getTable (snd (initialize shadowedEnv initialState)) ''foo.ctb''
       \<noteq> Inr \<lparr>fileName = ''foo.ctb'', displayName = PyStr ''Scratchpad foo'', contracted = False,
              output = True, input = True\<rparr>"
proof -
  have dirs: "getCustomTablesDirs shadowedEnv
      = [''scratchpad/brailleTables''] @ ''addons/a/brailleTables'' # []"
    by (simp add: getCustomTablesDirs_def candidates_def shadowedEnv_def customEnv_def)
  have scratchpad: "\<forall>d \<in> set [''scratchpad/brailleTables'']. dirTable shadowedEnv d ''foo.ctb'' = Inl KeyError"
    by (simp add: dirTable_def shadowedEnv_def customEnv_def endswith_def tryManifest_def
        getCustomTableDisplayName_eq malformedCfg_def namedCfg_def addTable_def
        dict_get_default_def getTable_def initialState_def)
  have addon: "dirTable shadowedEnv ''addons/a/brailleTables'' ''foo.ctb''
      = Inr \<lparr>fileName = ''foo.ctb'', displayName = PyStr ''Addon foo'', contracted = False,
             output = True, input = True\<rparr>"
    by (simp add: dirTable_def shadowedEnv_def customEnv_def endswith_def tryManifest_def
        getCustomTableDisplayName_eq malformedCfg_def namedCfg_def addTable_def
        dict_get_default_def getTable_def initialState_def)
  have final: "getTable (snd (initialize shadowedEnv initialState)) ''foo.ctb''
       = Inr \<lparr>fileName = ''foo.ctb'', displayName = PyStr ''Addon foo'', contracted = False,
              output = True, input = True\<rparr>"
    unfolding initialize_unfold dirs
    by (rule first_registering_dir_wins [OF _ scratchpad addon]) simp
  have m1: "loadManifest shadowedEnv ''scratchpad/brailleTables/tables.ini''
       = Inr [(''aaa.ctb'', malformedCfg), (''foo.ctb'', namedCfg ''Scratchpad foo'')]"
    by (simp add: shadowedEnv_def customEnv_def)
  have m2: "loadManifest shadowedEnv ''addons/a/brailleTables/tables.ini''
       = Inr [(''foo.ctb'', namedCfg ''Addon foo'')]"
    by (simp add: shadowedEnv_def customEnv_def)
  show ?thesis using dirs m1 m2 final by simp
qed

text \<open>
  C4, amended. Let \<open>D1\<close> be a directory of the discovered list such that the manifests of
  \<open>D1\<close> register \<open>f\<close> with the descriptor \<open>t\<close> (\<open>dirTable\<close>: a manifest registers its entries
  in order up to the first that raises, and the last registration of \<open>f\<close> counts), no
  directory before \<open>D1\<close> in the list registers \<open>f\<close>, and listing the directories after \<open>D1\<close>
  raises nothing but \<open>FileNotFoundError\<close>. Then after \<open>initialize\<close> the entry of \<open>f\<close> is \<open>t\<close>,
  whatever the directories after \<open>D1\<close> register for \<open>f\<close>.
\<close>

theorem C4_precedence:
  assumes "getCustomTablesDirs e = before @ D1 # after"
    and "\<forall>d \<in> set after. \<forall>exc. listdir e d = Inl exc \<longrightarrow> exc = FileNotFoundError"
    and "\<forall>d \<in> set before. dirTable e d f = Inl KeyError"
    and "dirTable e D1 f = Inr t"
  shows "getTable (snd (initialize e st)) f = Inr t"
  unfolding initialize_unfold assms(1)
  by (rule first_registering_dir_wins [OF assms(2,3,4)])

theorem C4_precedence_witness:
  "getCustomTablesDirs twoDirsEnv = [] @ ''scratchpad/brailleTables'' # [''addons/a/brailleTables'']
   \<and> dirTable twoDirsEnv ''scratchpad/brailleTables'' ''foo.ctb''
       = Inr \<lparr>fileName = ''foo.ctb'', displayName = PyStr ''Scratchpad foo'', contracted = False,
              output = True, input = True\<rparr>
   \<and> dirTable twoDirsEnv ''addons/a/brailleTables'' ''foo.ctb''
       = Inr \<lparr>fileName = ''foo.ctb'', displayName = PyStr ''Addon foo'', contracted = False,
              output = True, input = True\<rparr>
   \<and> getTable (snd (initialize twoDirsEnv initialState)) ''foo.ctb''
       = Inr \<lparr>fileName = ''foo.ctb'', displayName = PyStr ''Scratchpad foo'', contracted = False,
              output = True, input = True\<rparr>"
proof -
  have dirs: "getCustomTablesDirs twoDirsEnv
      = [] @ ''scratchpad/brailleTables'' # [''addons/a/brailleTables'']"
    by (simp add: getCustomTablesDirs_def candidates_def twoDirsEnv_def customEnv_def)
  have listable: "\<forall>d \<in> set [''addons/a/brailleTables''].
      \<forall>exc. listdir twoDirsEnv d = Inl exc \<longrightarrow> exc = FileNotFoundError"
    by (simp add: twoDirsEnv_def customEnv_def)
  have none_before: "\<forall>d \<in> set []. dirTable twoDirsEnv d ''foo.ctb'' = Inl KeyError"
    by simp
  have scratchpad: "dirTable twoDirsEnv ''scratchpad/brailleTables'' ''foo.ctb''
       = Inr \<lparr>fileName = ''foo.ctb'', displayName = PyStr ''Scratchpad foo'', contracted = False,
              output = True, input = True\<rparr>"
    by (simp add: dirTable_def twoDirsEnv_def customEnv_def endswith_def tryManifest_def
        getCustomTableDisplayName_eq namedCfg_def addTable_def
        dict_get_default_def getTable_def initialState_def)
  have addon: "dirTable twoDirsEnv ''addons/a/brailleTables'' ''foo.ctb''
       = Inr \<lparr>fileName = ''foo.ctb'', displayName = PyStr ''Addon foo'', contracted = False,
              output = True, input = True\<rparr>"
    by (simp add: dirTable_def twoDirsEnv_def customEnv_def endswith_def tryManifest_def
        getCustomTableDisplayName_eq namedCfg_def addTable_def
        dict_get_default_def getTable_def initialState_def)
  show ?thesis
    using dirs scratchpad addon
      C4_precedence [OF dirs listable none_before scratchpad, of initialState]
    by simp
qed

text \<open>
  C5. When \<^verbatim>\<open>os.listdir\<close> raises nothing but \<open>FileNotFoundError\<close> on the custom directories,
  \<open>initialize\<close> raises nothing, whatever the manifests do: whether they fail to open or
  parse, or raise while they are applied. And every manifest of a listed directory that
  parses and applies without raising has all its tables registered at the end, whatever
  happened with the other files of the same load.
\<close>

theorem C5_bad_manifest_is_skipped:
  assumes "\<forall>dir' \<in> set (getCustomTablesDirs e).
             \<forall>exc. listdir e dir' = Inl exc \<longrightarrow> exc = FileNotFoundError"
  shows "fst (initialize e st) = None
       \<and> (\<forall>dir' names n data f.
            dir' \<in> set (getCustomTablesDirs e) \<and> listdir e dir' = Inr names \<and> n \<in> set names
            \<and> isfile e (pathJoin e dir' n) \<and> endswith n ''.ini''
            \<and> loadManifest e (pathJoin e dir' n) = Inr data
            \<and> fst (loadCustomTablesConfig e st data) = None \<and> f \<in> fst ` set data
            \<longrightarrow> (\<exists>t. getTable (snd (initialize e st)) f = Inr t))"
proof -
  have listable: "\<forall>dir' \<in> set (rev (getCustomTablesDirs e)).
             \<forall>exc. listdir e dir' = Inl exc \<longrightarrow> exc = FileNotFoundError"
    using assms by simp
  have a: "fst (initialize e st) = None"
    unfolding initialize_unfold by (rule loadCustomDirs_no_exception [OF listable])
  have b: "\<exists>t. getTable (snd (initialize e st)) f = Inr t"
    if "dir' \<in> set (getCustomTablesDirs e)" "listdir e dir' = Inr names" "n \<in> set names"
      "isfile e (pathJoin e dir' n)" "endswith n ''.ini''"
      "loadManifest e (pathJoin e dir' n) = Inr data"
      "fst (loadCustomTablesConfig e st data) = None" "f \<in> fst ` set data"
    for dir' names n data f
  proof -
    have mem: "dir' \<in> set (rev (getCustomTablesDirs e))" using that(1) by simp
    have "f \<in> fst ` set (tables (snd (initialize e st)))"
      unfolding initialize_unfold
      using loadCustomDirs_registers [OF listable mem that(2-7)] that(8) by blast
    then show ?thesis unfolding getTable_def dict_getitem_Inr .
  qed
  show ?thesis using a b by blast
qed

theorem C5_bad_manifest_is_skipped_witness:
  "loadManifest twoDirsEnv ''scratchpad/brailleTables/bad.ini'' = Inl (OtherException ''parse error'')
   \<and> fst (initialize twoDirsEnv initialState) = None
   \<and> (\<exists>t. getTable (snd (initialize twoDirsEnv initialState)) ''foo.ctb'' = Inr t)
   \<and> (\<exists>t. getTable (snd (initialize twoDirsEnv initialState)) ''bar.ctb'' = Inr t)"
proof -
  have dirs: "getCustomTablesDirs twoDirsEnv = [''scratchpad/brailleTables'', ''addons/a/brailleTables'']"
    by (simp add: getCustomTablesDirs_def candidates_def twoDirsEnv_def customEnv_def)
  have listable: "\<forall>dir' \<in> set (getCustomTablesDirs twoDirsEnv).
      \<forall>exc. listdir twoDirsEnv dir' = Inl exc \<longrightarrow> exc = FileNotFoundError"
    unfolding dirs by (simp add: twoDirsEnv_def customEnv_def)
  note skipped = C5_bad_manifest_is_skipped [OF listable, of initialState]
  have bad: "loadManifest twoDirsEnv ''scratchpad/brailleTables/bad.ini''
      = Inl (OtherException ''parse error'')"
    by (simp add: twoDirsEnv_def customEnv_def)
  have good: "''scratchpad/brailleTables'' \<in> set (getCustomTablesDirs twoDirsEnv)
      \<and> listdir twoDirsEnv ''scratchpad/brailleTables'' = Inr [''bad.ini'', ''notes.txt'', ''good.ini'']
      \<and> ''good.ini'' \<in> set [''bad.ini'', ''notes.txt'', ''good.ini'']
      \<and> isfile twoDirsEnv (pathJoin twoDirsEnv ''scratchpad/brailleTables'' ''good.ini'')
      \<and> endswith ''good.ini'' ''.ini''
      \<and> loadManifest twoDirsEnv (pathJoin twoDirsEnv ''scratchpad/brailleTables'' ''good.ini'')
          = Inr [(''foo.ctb'', namedCfg ''Scratchpad foo'')]
      \<and> fst (loadCustomTablesConfig twoDirsEnv initialState [(''foo.ctb'', namedCfg ''Scratchpad foo'')])
          = None
      \<and> ''foo.ctb'' \<in> fst ` set [(''foo.ctb'', namedCfg ''Scratchpad foo'')]"
    unfolding dirs
    by (simp add: twoDirsEnv_def customEnv_def endswith_def getCustomTableDisplayName_eq
        namedCfg_def addTable_def dict_get_default_def)
  have addon: "''addons/a/brailleTables'' \<in> set (getCustomTablesDirs twoDirsEnv)
      \<and> listdir twoDirsEnv ''addons/a/brailleTables'' = Inr [''tables.ini'']
      \<and> ''tables.ini'' \<in> set [''tables.ini'']
      \<and> isfile twoDirsEnv (pathJoin twoDirsEnv ''addons/a/brailleTables'' ''tables.ini'')
      \<and> endswith ''tables.ini'' ''.ini''
      \<and> loadManifest twoDirsEnv (pathJoin twoDirsEnv ''addons/a/brailleTables'' ''tables.ini'')
          = Inr [(''foo.ctb'', namedCfg ''Addon foo''), (''bar.ctb'', namedCfg ''Addon bar'')]
      \<and> fst (loadCustomTablesConfig twoDirsEnv initialState
            [(''foo.ctb'', namedCfg ''Addon foo''), (''bar.ctb'', namedCfg ''Addon bar'')]) = None
      \<and> ''bar.ctb'' \<in> fst ` set [(''foo.ctb'', namedCfg ''Addon foo''), (''bar.ctb'', namedCfg ''Addon bar'')]"
    unfolding dirs
    by (simp add: twoDirsEnv_def customEnv_def endswith_def getCustomTableDisplayName_eq
        namedCfg_def addTable_def dict_get_default_def)
  show ?thesis using bad skipped good addon by blast
qed

text \<open>
  C6. As stated the claim fails in two ways. The order of \<open>listTables\<close> is the order of
  code points, which is no locale's collation: \<^verbatim>\<open>Zebra\<close> comes before \<^verbatim>\<open>apple\<close>. And not
  every registry state has a sorted list: after \<open>initialize\<close> has loaded a manifest in which
  the name of \<^verbatim>\<open>foo.ctb\<close> for the active locale is written with a comma, that name is a
  list beside the builtin names, which are strings, and \<open>listTables\<close> raises \<open>TypeError\<close>.
\<close>

theorem C6_listTables_sorted_counterexample:
  "listTables mixedCaseTables
     = Inr [\<lparr>fileName = ''c.ctb'', displayName = PyStr ''Zebra'', contracted = False,
             output = True, input = True\<rparr>,
            \<lparr>fileName = ''b.ctb'', displayName = PyStr ''apple'', contracted = False,
             output = True, input = True\<rparr>,
            \<lparr>fileName = ''a.ctb'', displayName = PyStr ''apple'', contracted = True,
             output = True, input = True\<rparr>]
   \<and> getTable (snd (initialize listNameEnv initialState)) ''foo.ctb''
       = Inr \<lparr>fileName = ''foo.ctb'', displayName = PyList [''Foo'', ''table''],
              contracted = False, output = True, input = True\<rparr>
   \<and> listTables (snd (initialize listNameEnv initialState)) = Inl TypeError"
proof -
  let ?final = "snd (initialize listNameEnv initialState)"
  let ?st1 = "snd (addTables initialState (builtinTables (gettext listNameEnv)))"
  let ?foo = "\<lparr>fileName = ''foo.ctb'', displayName = PyList [''Foo'', ''table''],
              contracted = False, output = True, input = True\<rparr>"
  have order: "listTables mixedCaseTables
     = Inr [\<lparr>fileName = ''c.ctb'', displayName = PyStr ''Zebra'', contracted = False,
             output = True, input = True\<rparr>,
            \<lparr>fileName = ''b.ctb'', displayName = PyStr ''apple'', contracted = False,
             output = True, input = True\<rparr>,
            \<lparr>fileName = ''a.ctb'', displayName = PyStr ''apple'', contracted = True,
             output = True, input = True\<rparr>]"
    by (simp add: listTables_def mixedCaseTables_def)
  have dirs: "getCustomTablesDirs listNameEnv
      = [] @ ''scratchpad/brailleTables'' # [''addons/a/brailleTables'']"
    by (simp add: getCustomTablesDirs_def candidates_def listNameEnv_def customEnv_def)
  have listable: "\<forall>d \<in> set [''addons/a/brailleTables''].
      \<forall>exc. listdir listNameEnv d = Inl exc \<longrightarrow> exc = FileNotFoundError"
    by (simp add: listNameEnv_def customEnv_def)
  have scratchpad: "dirTable listNameEnv ''scratchpad/brailleTables'' ''foo.ctb'' = Inr ?foo"
    by (simp add: dirTable_def listNameEnv_def customEnv_def endswith_def tryManifest_def
        getCustomTableDisplayName_eq localizedCfg_def addTable_def split_first_def
        dict_get_default_def getTable_def initialState_def)
  have foo: "getTable ?final ''foo.ctb'' = Inr ?foo"
    unfolding initialize_unfold dirs
    by (rule first_registering_dir_wins [OF listable _ scratchpad]) simp
  have foo_mem: "?foo \<in> snd ` set (tables ?final)"
    by (rule getTable_member [OF foo])
  have none: "\<forall>d \<in> set (rev (getCustomTablesDirs listNameEnv)).
      dirTable listNameEnv d ''afr-za-g1.ctb'' = Inl KeyError"
    unfolding dirs
    by (simp add: dirTable_def listNameEnv_def customEnv_def endswith_def tryManifest_def
        getCustomTableDisplayName_eq localizedCfg_def addTable_def split_first_def
        dict_get_default_def getTable_def initialState_def)
  have same: "getTable ?final ''afr-za-g1.ctb'' = getTable ?st1 ''afr-za-g1.ctb''"
    unfolding initialize_unfold loadCustomDirs_not_registering [OF none]
    by (simp only: getTable_def tables_tablesDirs_update)
  have "''afr-za-g1.ctb'' \<in> fst ` set (builtinTables (gettext listNameEnv))"
    unfolding builtinTables_def by (rule key_of_item, rule list.set_intros(1))
  then have "''afr-za-g1.ctb'' \<in> fst ` set (tables ?st1)"
    using builtinTables_keys [of "gettext listNameEnv" initialState] by blast
  then have "\<exists>table. dict_getitem (tables ?st1) ''afr-za-g1.ctb'' = Inr table"
    by (simp only: dict_getitem_Inr)
  then obtain afr where afr: "getTable ?st1 ''afr-za-g1.ctb'' = Inr afr"
    unfolding getTable_def by blast
  have strs: "\<forall>table \<in> snd ` set (tables ?st1). isStr (displayName table)"
    by (rule addTables_str_names [OF builtinTables_str_names]) (simp add: initialState_def)
  have "afr \<in> snd ` set (tables ?st1)"
    by (rule getTable_member [OF afr])
  then have afr_str: "isStr (displayName afr)" using strs by blast
  have "getTable ?final ''afr-za-g1.ctb'' = Inr afr"
    using afr same by (simp only:)
  then have afr_mem: "afr \<in> snd ` set (tables ?final)"
    by (rule getTable_member)
  have "listTables ?final = Inl TypeError"
    by (rule listTables_TypeError [OF afr_mem foo_mem afr_str]) simp
  then show ?thesis using order foo by simp
qed

text \<open>
  C6, amended. In every registry state in which every display name is a string,
  \<open>listTables\<close> returns a list: it holds exactly the registered descriptors, one for each
  file name, it is in nondecreasing order of \<open>displayName\<close> under the order of Python
  strings (lexicographic on code points), and descriptors with the same display name keep
  the order in which their file names were first registered.
\<close>

theorem C6_listTables_sorted:
  assumes "\<forall>table \<in> snd ` set (tables st). isStr (displayName table)"
  shows "\<exists>l. listTables st = Inr l
           \<and> mset l = mset (map snd (tables st))
           \<and> sorted (map (\<lambda>table. strOf (displayName table)) l)
           \<and> (\<forall>name. filter (\<lambda>table. displayName table = name) l
                      = filter (\<lambda>table. displayName table = name) (map snd (tables st)))"
proof -
  let ?vs = "map snd (tables st)"
  let ?l = "sort_key (\<lambda>table. strOf (displayName table)) ?vs"
  have a: "listTables st = Inr ?l"
    by (rule listTables_str_names [OF assms])
  have b: "mset ?l = mset ?vs" by simp
  have c: "sorted (map (\<lambda>table. strOf (displayName table)) ?l)"
    by (rule sorted_sort_key)
  have strs: "\<forall>table \<in> set ?vs. isStr (displayName table)"
    using assms by simp
  then have strs': "\<forall>table \<in> set ?l. isStr (displayName table)"
    by simp
  have d: "filter (\<lambda>table. displayName table = name) ?l
         = filter (\<lambda>table. displayName table = name) ?vs" for name
    unfolding str_name_filter [OF strs] str_name_filter [OF strs']
    by (simp add: sort_key_stable)
  show ?thesis using a b c d by blast
qed

theorem C6_listTables_sorted_witness:
  "list_all (\<lambda>table. isStr (displayName table)) (map snd (tables mixedCaseTables))
   \<and> (\<exists>l. listTables mixedCaseTables = Inr l
          \<and> mset l = mset (map snd (tables mixedCaseTables))
          \<and> sorted (map (\<lambda>table. strOf (displayName table)) l)
          \<and> filter (\<lambda>table. displayName table = PyStr ''apple'') l
              = filter (\<lambda>table. displayName table = PyStr ''apple'') (map snd (tables mixedCaseTables)))"
proof -
  have strs: "\<forall>table \<in> snd ` set (tables mixedCaseTables). isStr (displayName table)"
    by (simp add: mixedCaseTables_def)
  then have "list_all (\<lambda>table. isStr (displayName table)) (map snd (tables mixedCaseTables))"
    by (simp add: list_all_iff)
  then show ?thesis using C6_listTables_sorted [OF strs] by blast
qed

text \<open>
  C7. When \<open>f\<close> is registered and \<open>addTable\<close> is called for \<open>f\<close> with \<open>output\<close> or \<open>input\<close>
  true, the call does not raise, the entry of \<open>f\<close> is the descriptor built from the
  arguments of the call alone, the entry of every other file name is what it was, and
  neither the order of the keys nor \<open>tablesDirs\<close> changes.
\<close>

theorem C7_overwrite:
  assumes "getTable st f = Inr old" and "out \<or> inp"
  shows "fst (addTable st f d c out inp) = None
       \<and> getTable (snd (addTable st f d c out inp)) f
           = Inr \<lparr>fileName = f, displayName = d, contracted = c, output = out, input = inp\<rparr>
       \<and> (\<forall>g. g \<noteq> f \<longrightarrow> getTable (snd (addTable st f d c out inp)) g = getTable st g)
       \<and> map fst (tables (snd (addTable st f d c out inp))) = map fst (tables st)
       \<and> tablesDirs (snd (addTable st f d c out inp)) = tablesDirs st"
proof -
  have "f \<in> fst ` set (tables st)"
    using assms(1) dict_getitem_Inr [of "tables st" f] by (auto simp: getTable_def)
  then show ?thesis
    using assms(2)
    by (auto simp: addTable_def getTable_def Let_def dict_getitem_setitem dict_setitem_present)
qed

theorem C7_overwrite_witness:
  "getTable twoTables ''foo.ctb''
     = Inr \<lparr>fileName = ''foo.ctb'', displayName = PyStr ''Old'', contracted = True, output = True,
            input = False\<rparr>
   \<and> getTable (snd (addTable twoTables ''foo.ctb'' (PyStr ''New'') False False True)) ''foo.ctb''
     = Inr \<lparr>fileName = ''foo.ctb'', displayName = PyStr ''New'', contracted = False, output = False,
            input = True\<rparr>
   \<and> getTable (snd (addTable twoTables ''foo.ctb'' (PyStr ''New'') False False True)) ''bar.ctb''
     = getTable twoTables ''bar.ctb''
   \<and> map fst (tables (snd (addTable twoTables ''foo.ctb'' (PyStr ''New'') False False True)))
     = [''foo.ctb'', ''bar.ctb'']"
proof -
  have g: "getTable twoTables ''foo.ctb''
     = Inr \<lparr>fileName = ''foo.ctb'', displayName = PyStr ''Old'', contracted = True, output = True,
            input = False\<rparr>"
    by (simp add: twoTables_def getTable_def)
  have k: "map fst (tables twoTables) = [''foo.ctb'', ''bar.ctb'']"
    by (simp add: twoTables_def)
  show ?thesis
    using g k C7_overwrite [OF g, of False True "PyStr ''New''" False]
    by simp
qed

text \<open>
  C8. After \<open>terminate\<close>, from any state, no table is registered, the directory list is
  the builtin directory alone, and \<open>getTable\<close> raises \<open>KeyError\<close> for every file name; a
  file name is found again once \<open>addTable\<close> has registered it.
\<close>

theorem C8_terminate:
  "tables (terminate st) = []
   \<and> tablesDirs (terminate st) = [TABLES_DIR]
   \<and> (\<forall>f. getTable (terminate st) f = Inl KeyError)
   \<and> (\<forall>f d c out inp. out \<or> inp \<longrightarrow>
         getTable (snd (addTable (terminate st) f d c out inp)) f
           = Inr \<lparr>fileName = f, displayName = d, contracted = c, output = out, input = inp\<rparr>)"
  by (auto simp: terminate_def getTable_def addTable_def)

theorem C8_terminate_witness:
  "getTable (terminate twoTables) ''foo.ctb'' = Inl KeyError
   \<and> getTable (snd (addTable (terminate twoTables) ''foo.ctb'' (PyStr ''Foo'') False True False)) ''foo.ctb''
       = Inr \<lparr>fileName = ''foo.ctb'', displayName = PyStr ''Foo'', contracted = False, output = True,
              input = False\<rparr>"
  using C8_terminate [of twoTables] by simp

text \<open>
  C9. \<open>RENAMED_TABLES\<close> maps \<^verbatim>\<open>ar-fa.utb\<close> to \<^verbatim>\<open>fa-ir-g1.utb\<close>, and every value of
  \<open>RENAMED_TABLES\<close> is registered once the builtin tables are added, and still is when
  \<open>initialize\<close> ends, from any state and in any environment.
\<close>

theorem C9_renamed_targets_registered:
  "map_of RENAMED_TABLES ''ar-fa.utb'' = Some ''fa-ir-g1.utb''
   \<and> (\<forall>new \<in> snd ` set RENAMED_TABLES.
        (\<exists>t. getTable (snd (addTables st (builtinTables (gettext e)))) new = Inr t)
        \<and> (\<exists>t. getTable (snd (initialize e st)) new = Inr t))"
proof -
  have a: "map_of RENAMED_TABLES ''ar-fa.utb'' = Some ''fa-ir-g1.utb''"
    by (simp add: RENAMED_TABLES_def)
  have b: "\<exists>t. getTable (snd (addTables st (builtinTables (gettext e)))) new = Inr t"
    if "new \<in> snd ` set RENAMED_TABLES" for new
    using that renamed_targets_builtin [of "gettext e"] builtinTables_keys [of "gettext e" st]
    unfolding getTable_def dict_getitem_Inr by blast
  have c: "\<exists>t. getTable (snd (initialize e st)) new = Inr t"
    if "new \<in> snd ` set RENAMED_TABLES" for new
    using that renamed_targets_builtin [of "gettext e"] initialize_keys [of e st]
    unfolding getTable_def dict_getitem_Inr by blast
  show ?thesis using a b c by blast
qed

theorem C9_renamed_targets_registered_witness:
  "''fa-ir-g1.utb'' \<in> snd ` set RENAMED_TABLES
   \<and> (\<exists>t. getTable (snd (initialize twoDirsEnv initialState)) ''fa-ir-g1.utb'' = Inr t)"
proof -
  have m: "''fa-ir-g1.utb'' \<in> snd ` set RENAMED_TABLES"
    by (simp add: RENAMED_TABLES_def)
  show ?thesis
    using m C9_renamed_targets_registered [of initialState twoDirsEnv]
    by blast
qed

text \<open>
  C10. In the dictionary case the resolution walks through the exact locale key, the
  prefix before the first underscore, \<^verbatim>\<open>"en_US"\<close> and \<^verbatim>\<open>"en"\<close> in this order and returns
  the first value that is true, the file name when there is none. A key whose value is the
  empty string is passed like a missing key: when the value at the exact key is the empty
  string the result is that of the walk from the prefix on, when the value at the prefix is
  empty too that of the walk from \<^verbatim>\<open>"en_US"\<close> on, and so on down to the file name.
\<close>

theorem C10_empty_string_is_absent:
  assumes "cfg_displayName cfg = Some (DNDict value)"
  shows "getCustomTableDisplayName e f cfg
           = Inr (fall_through value
                    [getLanguage e, split_first (getLanguage e), ''en_US'', ''en''] f)
       \<and> (value (getLanguage e) = Some (PyStr []) \<longrightarrow>
            getCustomTableDisplayName e f cfg
              = Inr (fall_through value [split_first (getLanguage e), ''en_US'', ''en''] f))
       \<and> (value (getLanguage e) = Some (PyStr []) \<and> value (split_first (getLanguage e)) = Some (PyStr [])
            \<longrightarrow> getCustomTableDisplayName e f cfg = Inr (fall_through value [''en_US'', ''en''] f))
       \<and> (value (getLanguage e) = Some (PyStr []) \<and> value (split_first (getLanguage e)) = Some (PyStr [])
            \<and> value ''en_US'' = Some (PyStr [])
            \<longrightarrow> getCustomTableDisplayName e f cfg = Inr (fall_through value [''en''] f))
       \<and> (value (getLanguage e) = Some (PyStr []) \<and> value (split_first (getLanguage e)) = Some (PyStr [])
            \<and> value ''en_US'' = Some (PyStr []) \<and> value ''en'' = Some (PyStr [])
            \<longrightarrow> getCustomTableDisplayName e f cfg = Inr (PyStr f))
       \<and> (\<forall>k ks. value k = Some (PyStr []) \<or> value k = None
            \<longrightarrow> fall_through value (k # ks) f = fall_through value ks f)
       \<and> (\<forall>k ks s. value k = Some (PyStr s) \<and> s \<noteq> []
            \<longrightarrow> fall_through value (k # ks) f = PyStr s)"
proof -
  have walk: "getCustomTableDisplayName e f cfg
           = Inr (fall_through value
                    [getLanguage e, split_first (getLanguage e), ''en_US'', ''en''] f)"
    using assms
    by (auto simp: getCustomTableDisplayName_eq Let_def split: option.splits)
  have skip: "fall_through value (k # ks) f = fall_through value ks f"
    if "value k = Some (PyStr []) \<or> value k = None" for k ks
    using that by auto
  have take: "fall_through value (k # ks) f = PyStr s"
    if "value k = Some (PyStr s) \<and> s \<noteq> []" for k ks s
    using that by auto
  show ?thesis
    unfolding walk using skip take by auto
qed

theorem C10_empty_string_is_absent_witness:
  "cfg_displayName (localizedCfg emptyGermanNames) = Some (DNDict emptyGermanNames)
   \<and> emptyGermanNames ''de_AT'' = Some (PyStr '''')
   \<and> emptyGermanNames (split_first ''de_AT'') = Some (PyStr '''')
   \<and> fall_through emptyGermanNames [''en_US'', ''en''] ''foo.ctb'' = PyStr ''Y''
   \<and> getCustomTableDisplayName (localeEnv ''de_AT'') ''foo.ctb'' (localizedCfg emptyGermanNames)
     = Inr (PyStr ''Y'')"
proof -
  have a: "cfg_displayName (localizedCfg emptyGermanNames) = Some (DNDict emptyGermanNames)"
    by (simp add: localizedCfg_def)
  have b: "emptyGermanNames ''de_AT'' = Some (PyStr '''')"
    by (simp add: emptyGermanNames_def)
  have c: "emptyGermanNames (split_first ''de_AT'') = Some (PyStr '''')"
    by (simp add: emptyGermanNames_def split_first_def)
  have d: "fall_through emptyGermanNames [''en_US'', ''en''] ''foo.ctb'' = PyStr ''Y''"
    by (simp add: emptyGermanNames_def)
  have lang: "getLanguage (localeEnv ''de_AT'') = ''de_AT''"
    by (simp add: localeEnv_def)
  show ?thesis
    using a b c d
      C10_empty_string_is_absent [OF a, of "localeEnv ''de_AT''" "''foo.ctb''"]
    unfolding lang by simp
qed

end
